theory Spec2Isabelle
  imports Main "HOL-Library.Word" "HOL-Library.List_Lexorder" "HOL-Library.Char_ord"
begin

section \<open>Python values held by model attributes\<close>

text \<open>
  The attributes of a Django model instance of \<^verbatim>\<open>securesync/models.py\<close> hold
  Python values. \<open>PModel pk\<close> is a related model instance, given by its primary key;
  \<open>PUuid\<close> is a \<^verbatim>\<open>uuid.UUID\<close> object (128 bits);
  \<open>PFloat\<close> is a double, kept as its bit pattern; \<open>PDateTime\<close> is a
  \<^verbatim>\<open>datetime.datetime\<close> (year, month, day, hour, minute, second).
\<close>

datatype pyval =
    PNone
  | PBool bool
  | PInt int
  | PStr string
  | PFloat "64 word"
  | PModel string
  | PDateTime nat nat nat nat nat nat
  | PUuid "128 word"

text \<open>Python truthiness, as tested by \<^verbatim>\<open>if val:\<close> and \<^verbatim>\<open>not x\<close>.\<close>

fun truthy :: "pyval \<Rightarrow> bool" where
  "truthy PNone = False"
| "truthy (PBool b) = b"
| "truthy (PInt i) = (i \<noteq> 0)"
| "truthy (PStr s) = (s \<noteq> [])"
| "truthy (PFloat w) = (w \<noteq> 0 \<and> w \<noteq> 0x8000000000000000)"
| "truthy (PModel pk) = True"
| "truthy (PDateTime y mo d h mi s) = True"
| "truthy (PUuid u) = True"

subsection \<open>String forms\<close>

definition digit_char :: "nat \<Rightarrow> char" where
  "digit_char d = char_of (48 + d)"

fun str_nat :: "nat \<Rightarrow> string" where
  "str_nat n = (if n < 10 then [digit_char n] else str_nat (n div 10) @ [digit_char (n mod 10)])"

declare str_nat.simps [simp del]

text \<open>\<^verbatim>\<open>str(i)\<close> for a Python int.\<close>

definition str_int :: "int \<Rightarrow> string" where
  "str_int i = (if i < 0 then CHR ''-'' # str_nat (nat (- i)) else str_nat (nat i))"

text \<open>\<^verbatim>\<open>%0wd\<close> for a non-negative number.\<close>

definition zpad :: "nat \<Rightarrow> nat \<Rightarrow> string" where
  "zpad w n = replicate (w - length (str_nat n)) (CHR ''0'') @ str_nat n"

definition hex_char :: "nat \<Rightarrow> char" where
  "hex_char d = (if d < 10 then char_of (48 + d) else char_of (87 + d))"

text \<open>The \<open>k\<close> lowest hexadecimal digits of \<open>n\<close>, most significant first.\<close>

fun hex_digits :: "nat \<Rightarrow> nat \<Rightarrow> string" where
  "hex_digits 0 n = []"
| "hex_digits (Suc k) n = hex_digits k (n div 16) @ [hex_char (n mod 16)]"

text \<open>\<^verbatim>\<open>UUID.hex\<close>: 32 lowercase hexadecimal digits.\<close>

definition uuid_hex :: "128 word \<Rightarrow> string" where
  "uuid_hex u = hex_digits 32 (unat u)"

text \<open>\<^verbatim>\<open>str(UUID)\<close>: the dashed form 8-4-4-4-12.\<close>

definition uuid_str :: "128 word \<Rightarrow> string" where
  "uuid_str u = (let h = uuid_hex u in
     take 8 h @ ''-'' @ take 4 (drop 8 h) @ ''-'' @ take 4 (drop 12 h) @ ''-'' @
     take 4 (drop 16 h) @ ''-'' @ drop 20 h)"

text \<open>
  The line \<^verbatim>\<open>"%04d-%02d-%02d %d:%02d:%02d" % (val.year, ...)\<close> of
  \<^verbatim>\<open>_hashable_representation\<close>: the hour is not padded.
\<close>

definition format_datetime :: "nat \<Rightarrow> nat \<Rightarrow> nat \<Rightarrow> nat \<Rightarrow> nat \<Rightarrow> nat \<Rightarrow> string" where
  "format_datetime y mo d h mi s =
     zpad 4 y @ ''-'' @ zpad 2 mo @ ''-'' @ zpad 2 d @ '' '' @ str_nat h @ '':'' @ zpad 2 mi @ '':'' @ zpad 2 s"

text \<open>
  \<^verbatim>\<open>"%s" % val\<close>. The string form of a float is the interpreter's, taken as the
  parameter \<open>float_str\<close>. A model instance and a datetime never reach this point in
  \<^verbatim>\<open>_hashable_representation\<close> (they are replaced first); for completeness a
  datetime prints as \<^verbatim>\<open>str(datetime)\<close> without microseconds and a model instance as its key.
\<close>

fun py_str :: "(64 word \<Rightarrow> string) \<Rightarrow> pyval \<Rightarrow> string" where
  "py_str float_str PNone = ''None''"
| "py_str float_str (PBool b) = (if b then ''True'' else ''False'')"
| "py_str float_str (PInt i) = str_int i"
| "py_str float_str (PStr s) = s"
| "py_str float_str (PFloat w) = float_str w"
| "py_str float_str (PModel pk) = pk"
| "py_str float_str (PDateTime y mo d h mi s) =
     zpad 4 y @ ''-'' @ zpad 2 mo @ ''-'' @ zpad 2 d @ '' '' @ zpad 2 h @ '':'' @ zpad 2 mi @ '':'' @ zpad 2 s"
| "py_str float_str (PUuid u) = uuid_str u"

section \<open>Model instances\<close>

datatype model_class = Zone | Facility | FacilityGroup | FacilityUser | DeviceZone | SyncedLog | Device

text \<open>
  A model instance: its class and its attributes (\<^verbatim>\<open>getattr(self, name)\<close>).
  The foreign key \<^verbatim>\<open>signed_by\<close> is kept as the attribute \<^verbatim>\<open>signed_by_id\<close>
  (a string or None) and resolved against the store where the code reads
  \<^verbatim>\<open>self.signed_by\<close>; the other foreign keys hold \<open>PModel pk\<close>, the key of the
  row they refer to, or \<open>PNone\<close>, and the row is fetched from the store when the
  attribute is read.
\<close>

record model_obj =
  cls :: model_class
  attrs :: "string \<Rightarrow> pyval"

definition synced_fields :: "string list" where
  "synced_fields = [''id'', ''counter'', ''signature'', ''signed_version'', ''signed_by'',
     ''zone_fallback'', ''deleted'']"

text \<open>\<^verbatim>\<open>[field.name for field in self._meta.fields]\<close>: the inherited fields, then the class's own.\<close>

fun meta_fields :: "model_class \<Rightarrow> string list" where
  "meta_fields Zone = synced_fields @ [''name'', ''description'']"
| "meta_fields Facility = synced_fields @ [''name'', ''description'', ''address'',
     ''address_normalized'', ''latitude'', ''longitude'', ''zoom'', ''contact_name'',
     ''contact_phone'', ''contact_email'', ''user_count'']"
| "meta_fields FacilityGroup = synced_fields @ [''facility'', ''name'']"
| "meta_fields FacilityUser = synced_fields @ [''facility'', ''group'', ''username'',
     ''first_name'', ''last_name'', ''is_teacher'', ''notes'', ''password'']"
| "meta_fields DeviceZone = synced_fields @ [''device'', ''zone'']"
| "meta_fields SyncedLog = synced_fields @ [''category'', ''value'', ''data'']"
| "meta_fields Device = synced_fields @ [''name'', ''description'', ''public_key'']"

section \<open>The canonical hash string\<close>

definition unhashable_fields :: "string list" where
  "unhashable_fields = [''signature'', ''signed_by'']"

definition always_hash_fields :: "string list" where
  "always_hash_fields = [''signed_version'', ''id'']"

text \<open>
  The first half of \<^verbatim>\<open>SyncedModel._hashable_representation\<close>: the field list.
  \<^verbatim>\<open>if not fields\<close> holds for None and for the empty list.
\<close>

definition hash_field_list :: "model_class \<Rightarrow> string list option \<Rightarrow> string list" where
  "hash_field_list c flds =
     (let fields0 = (case flds of
                       None \<Rightarrow> sort (filter (\<lambda>f. f \<notin> set unhashable_fields) (meta_fields c))
                     | Some fs \<Rightarrow> if fs = []
                                 then sort (filter (\<lambda>f. f \<notin> set unhashable_fields) (meta_fields c))
                                 else fs)
      in fold (\<lambda>field fs. if field \<notin> set fs then field # fs else fs) always_hash_fields fields0)"

text \<open>The value printed for a truthy attribute: a model instance by its key, a datetime formatted.\<close>

fun render_val :: "(64 word \<Rightarrow> string) \<Rightarrow> pyval \<Rightarrow> string" where
  "render_val float_str (PModel pk) = pk"
| "render_val float_str (PDateTime y mo d h mi s) = format_datetime y mo d h mi s"
| "render_val float_str v = py_str float_str v"

definition token :: "(64 word \<Rightarrow> string) \<Rightarrow> string \<Rightarrow> pyval \<Rightarrow> string" where
  "token float_str field val = field @ ''='' @ render_val float_str val"

text \<open>
  The loop \<^verbatim>\<open>for field in fields\<close>, with \<open>chunks\<close> as the accumulator, over the
  values \<open>a field\<close> the attributes give. Reading an attribute of an instance can raise
  (a foreign key whose row is missing); the loop with that reading, \<open>chunks_loop_db\<close>, is
  given with the store below and computes the same chunks whenever it returns.
\<close>

fun chunks_loop :: "(64 word \<Rightarrow> string) \<Rightarrow> (string \<Rightarrow> pyval) \<Rightarrow> string list \<Rightarrow> string list \<Rightarrow> string list" where
  "chunks_loop float_str a [] chunks = chunks"
| "chunks_loop float_str a (field # flds) chunks =
     (let val = a field in
      if truthy val then chunks_loop float_str a flds (chunks @ [token float_str field val])
      else chunks_loop float_str a flds chunks)"

text \<open>\<^verbatim>\<open>"&".join(chunks)\<close>.\<close>

fun join_amp :: "string list \<Rightarrow> string" where
  "join_amp [] = []"
| "join_amp [c] = c"
| "join_amp (c # cs) = c @ ''&'' @ join_amp cs"

definition hash_chunks :: "(64 word \<Rightarrow> string) \<Rightarrow> model_obj \<Rightarrow> string list option \<Rightarrow> string list" where
  "hash_chunks float_str r flds = chunks_loop float_str (attrs r) (hash_field_list (cls r) flds) []"

definition SyncedModel_hashable_representation ::
    "(64 word \<Rightarrow> string) \<Rightarrow> model_obj \<Rightarrow> string list option \<Rightarrow> string" where
  "SyncedModel_hashable_representation float_str r flds = join_amp (hash_chunks float_str r flds)"

definition Device_hashable_representation :: "(64 word \<Rightarrow> string) \<Rightarrow> model_obj \<Rightarrow> string" where
  "Device_hashable_representation float_str r =
     SyncedModel_hashable_representation float_str r
       (Some [''signed_version'', ''name'', ''description'', ''public_key''])"

text \<open>
  \<^verbatim>\<open>self._hashable_representation()\<close>, dispatched on the class, as a function of the
  attribute values.
\<close>

definition hashable_representation :: "(64 word \<Rightarrow> string) \<Rightarrow> model_obj \<Rightarrow> string" where
  "hashable_representation float_str r =
     (if cls r = Device then Device_hashable_representation float_str r
      else SyncedModel_hashable_representation float_str r None)"

section \<open>External collaborators\<close>

text \<open>
  What the module imports and does not define: the \<^verbatim>\<open>uuid\<close> and \<^verbatim>\<open>crypto\<close>
  modules, the serializers and \<^verbatim>\<open>settings\<close>. They are parameters of the model.
  A function that may raise returns an option (\<open>None\<close>: it raised).
  \<open>uuid4 n\<close> is the \<open>n\<close>-th value drawn from the random source.
  A deserializer is a generator: it gives the instances it yields and whether it raises
  after the last of them. \<open>validation_error_str\<close> is \<^verbatim>\<open>"%s" % e\<close> for a
  \<^verbatim>\<open>ValidationError\<close> with the given message.
\<close>

text \<open>
  An entry of a batch in its parsed form, \<^verbatim>\<open>{model: ..., pk: ..., fields: {...}}\<close>.
\<close>

record serialized_obj =
  s_model :: string
  s_pk :: pyval
  s_fields :: "(string \<times> pyval) list"

record lib =
  float_str :: "64 word \<Rightarrow> string"
  uuid5 :: "128 word \<Rightarrow> string \<Rightarrow> 128 word"
  uuid4 :: "nat \<Rightarrow> 128 word"
  uuid_UUID :: "string \<Rightarrow> 128 word option"
  crypto_sign :: "string \<Rightarrow> string option"
  crypto_verify :: "string \<Rightarrow> string \<Rightarrow> string \<Rightarrow> bool option"
  crypto_encode_base64 :: "string \<Rightarrow> string"
  crypto_decode_base64 :: "string \<Rightarrow> string option"
  crypto_get_public_key :: "string"
  crypto_serialize_public_key :: "string \<Rightarrow> string"
  crypto_deserialize_public_key :: "string \<Rightarrow> string option"
  CENTRAL_SERVER_HOST :: "string"
  CENTRAL_SERVER :: "bool"
  syncing_models :: "model_class list"
  json_serialize :: "model_obj list \<Rightarrow> string"
  json_deserialize :: "string \<Rightarrow> model_obj list \<times> bool"
  python_deserialize :: "serialized_obj list \<Rightarrow> model_obj list \<times> bool"
  validation_error_str :: "string \<Rightarrow> string"

datatype error =
    ValidationError string
  | DoesNotExist
  | ValueError
  | CryptoError
  | DeserializationError
  | AssertionError
  | AttributeError

definition NAMESPACE_URL :: "128 word" where
  "NAMESPACE_URL = 0x6ba7b8119dad11d180b400c04fd430c8"

definition ROOT_UUID_NAMESPACE :: "lib \<Rightarrow> 128 word" where
  "ROOT_UUID_NAMESPACE L = uuid5 L NAMESPACE_URL (CENTRAL_SERVER_HOST L)"

section \<open>The store\<close>

text \<open>
  \<^verbatim>\<open>DeviceMetadata\<close>: \<open>md_device\<close> is the key of the row's device.
\<close>

record device_metadata =
  md_device :: pyval
  is_trusted :: bool
  is_own_device :: bool
  counter_position :: int

record import_purgatory =
  pk :: "nat option"
  p_counter :: pyval
  retry_attempts :: int
  serialized_models :: string
  exceptions :: string

text \<open>
  The database: the rows of the synced model tables and the \<^verbatim>\<open>DeviceMetadata\<close> and
  \<^verbatim>\<open>ImportPurgatory\<close> rows, each in insertion order, and the number of values
  drawn so far from the random source.
\<close>

record world =
  rows :: "model_obj list"
  metadata :: "device_metadata list"
  purgatory :: "import_purgatory list"
  next_pk :: nat
  draws :: nat

text \<open>
  What a \<^verbatim>\<open>CharField\<close> stores and looks up (\<^verbatim>\<open>to_python\<close>): a string or None
  as it is, anything else by its string form.
\<close>

fun db_prep :: "lib \<Rightarrow> pyval \<Rightarrow> pyval" where
  "db_prep L PNone = PNone"
| "db_prep L (PStr s) = PStr s"
| "db_prep L v = PStr (py_str (float_str L) v)"

definition obj_id :: "model_obj \<Rightarrow> pyval" where
  "obj_id r = attrs r ''id''"

definition same_row :: "lib \<Rightarrow> model_obj \<Rightarrow> model_obj \<Rightarrow> bool" where
  "same_row L r x = (cls x = cls r \<and> obj_id x = db_prep L (obj_id r))"

text \<open>
  \<^verbatim>\<open>models.Model.save\<close>: the row with the instance's class and key is replaced, or
  a new row is appended. Constraints of the database are not modelled.
\<close>

definition Model_save :: "lib \<Rightarrow> model_obj \<Rightarrow> world \<Rightarrow> world" where
  "Model_save L r w =
     (let stored = r\<lparr>attrs := (attrs r)(''id'' := db_prep L (obj_id r))\<rparr> in
      if \<exists>x \<in> set (rows w). same_row L r x
      then w\<lparr>rows := map (\<lambda>x. if same_row L r x then stored else x) (rows w)\<rparr>
      else w\<lparr>rows := rows w @ [stored]\<rparr>)"

text \<open>\<^verbatim>\<open>Model.objects.get(pk=key)\<close>; \<open>None\<close> is \<^verbatim>\<open>DoesNotExist\<close>.\<close>

definition get_object_or_None :: "model_class \<Rightarrow> pyval \<Rightarrow> world \<Rightarrow> model_obj option" where
  "get_object_or_None c key w = find (\<lambda>x. cls x = c \<and> obj_id x = key) (rows w)"

section \<open>Device metadata and counters\<close>

definition new_metadata :: "pyval \<Rightarrow> device_metadata" where
  "new_metadata key = \<lparr>md_device = key, is_trusted = False, is_own_device = False, counter_position = 0\<rparr>"

text \<open>
  \<^verbatim>\<open>Device.get_metadata\<close>: the device's row, or a fresh unsaved
  \<^verbatim>\<open>DeviceMetadata(device=self)\<close>.
\<close>

definition get_metadata :: "lib \<Rightarrow> world \<Rightarrow> model_obj \<Rightarrow> device_metadata" where
  "get_metadata L w d =
     (case find (\<lambda>m. md_device m = db_prep L (obj_id d)) (metadata w) of
        Some m \<Rightarrow> m
      | None \<Rightarrow> new_metadata (db_prep L (obj_id d)))"

fun replace_first :: "('a \<Rightarrow> bool) \<Rightarrow> 'a \<Rightarrow> 'a list \<Rightarrow> 'a list" where
  "replace_first P y [] = []"
| "replace_first P y (x # xs) = (if P x then y # xs else x # replace_first P y xs)"

text \<open>
  \<^verbatim>\<open>metadata.save()\<close> for the object \<^verbatim>\<open>get_metadata\<close> returned: the row it was
  read from (the first of the device) is updated, or the fresh object is inserted.
\<close>

definition metadata_save :: "device_metadata \<Rightarrow> world \<Rightarrow> world" where
  "metadata_save m w =
     (if \<exists>x \<in> set (metadata w). md_device x = md_device m
      then w\<lparr>metadata := replace_first (\<lambda>x. md_device x = md_device m) m (metadata w)\<rparr>
      else w\<lparr>metadata := metadata w @ [m]\<rparr>)"

definition set_counter_position :: "lib \<Rightarrow> world \<Rightarrow> model_obj \<Rightarrow> int \<Rightarrow> world" where
  "set_counter_position L w d n =
     (let md = get_metadata L w d in
      if \<not> truthy (obj_id d) then w
      else if n > counter_position md
      then metadata_save (md\<lparr>counter_position := n\<rparr>) w
      else w)"

definition increment_and_get_counter :: "lib \<Rightarrow> world \<Rightarrow> model_obj \<Rightarrow> int \<times> world" where
  "increment_and_get_counter L w d =
     (let md = get_metadata L w d in
      if \<not> truthy (obj_id d) then (0, w)
      else let md' = md\<lparr>counter_position := counter_position md + 1\<rparr>
           in (counter_position md', metadata_save md' w))"

definition get_counter :: "lib \<Rightarrow> world \<Rightarrow> model_obj \<Rightarrow> int" where
  "get_counter L w d =
     (let md = get_metadata L w d in
      if \<not> truthy (obj_id d) then 0 else counter_position md)"

text \<open>A sequence of counter operations on devices, and \<open>n\<close> successive increments.\<close>

datatype counter_op = SetCounterPosition model_obj int | IncrementAndGet model_obj

fun counter_step :: "lib \<Rightarrow> world \<Rightarrow> counter_op \<Rightarrow> world" where
  "counter_step L w (SetCounterPosition d n) = set_counter_position L w d n"
| "counter_step L w (IncrementAndGet d) = snd (increment_and_get_counter L w d)"

fun increment_times :: "lib \<Rightarrow> nat \<Rightarrow> world \<Rightarrow> model_obj \<Rightarrow> int list \<times> world" where
  "increment_times L 0 w d = ([], w)"
| "increment_times L (Suc n) w d =
     (let (c, w') = increment_and_get_counter L w d;
          (cs, w'') = increment_times L n w' d
      in (c # cs, w''))"

section \<open>Identifiers\<close>

text \<open>
  \<^verbatim>\<open>Device.get_uuid\<close>: without a public key a random \<^verbatim>\<open>uuid.uuid4()\<close> object,
  the next draw of the random source; with one, the hex form of a UUIDv5.
\<close>

definition Device_get_uuid :: "lib \<Rightarrow> world \<Rightarrow> model_obj \<Rightarrow> pyval \<times> world" where
  "Device_get_uuid L w d =
     (if \<not> truthy (attrs d ''public_key'')
      then (PUuid (uuid4 L (draws w)), w\<lparr>draws := Suc (draws w)\<rparr>)
      else (PStr (uuid_hex (uuid5 L (ROOT_UUID_NAMESPACE L) (py_str (float_str L) (attrs d ''public_key'')))), w))"

section \<open>Signing and verification\<close>

text \<open>\<^verbatim>\<open>requires_trusted_signature\<close>: set by Zone and DeviceZone.\<close>

fun requires_trusted_signature :: "model_class \<Rightarrow> bool" where
  "requires_trusted_signature Zone = True"
| "requires_trusted_signature DeviceZone = True"
| "requires_trusted_signature c = False"

text \<open>
  \<^verbatim>\<open>self.signed_by\<close>: the Device row whose key is \<^verbatim>\<open>signed_by_id\<close>;
  \<open>None\<close> is \<^verbatim>\<open>Device.DoesNotExist\<close>.
\<close>

definition signed_by :: "lib \<Rightarrow> world \<Rightarrow> model_obj \<Rightarrow> model_obj option" where
  "signed_by L w r = get_object_or_None Device (db_prep L (attrs r ''signed_by_id'')) w"

text \<open>
  \<^verbatim>\<open>Device.get_public_key\<close>: \<^verbatim>\<open>crypto.deserialize_public_key(self.public_key)\<close>;
  \<open>None\<close> when it raises.
\<close>

definition get_public_key :: "lib \<Rightarrow> model_obj \<Rightarrow> string option" where
  "get_public_key L d =
     (case attrs d ''public_key'' of
        PStr s \<Rightarrow> crypto_deserialize_public_key L s
      | _ \<Rightarrow> None)"

text \<open>
  The foreign keys of a class other than \<^verbatim>\<open>signed_by\<close>: the class referred to, and
  whether the field may be null.
\<close>

definition fk_target :: "model_class \<Rightarrow> string \<Rightarrow> (model_class \<times> bool) option" where
  "fk_target c field =
     (if field = ''zone_fallback'' then Some (Zone, True)
      else case c of
             FacilityGroup \<Rightarrow> (if field = ''facility'' then Some (Facility, False) else None)
           | FacilityUser \<Rightarrow> (if field = ''facility'' then Some (Facility, False)
                              else if field = ''group'' then Some (FacilityGroup, True) else None)
           | DeviceZone \<Rightarrow> (if field = ''device'' then Some (Device, False)
                            else if field = ''zone'' then Some (Zone, False) else None)
           | _ \<Rightarrow> None)"

text \<open>
  \<^verbatim>\<open>getattr(self, field)\<close>. A foreign key holds the key of its row (\<open>PModel k\<close>) or
  None; reading it fetches the row from the store and raises \<^verbatim>\<open>DoesNotExist\<close> when
  the row is missing, or when the key is None and the field may not be null.
\<close>

definition getattr_field :: "world \<Rightarrow> model_obj \<Rightarrow> string \<Rightarrow> error + pyval" where
  "getattr_field w r field =
     (case fk_target (cls r) field of
        None \<Rightarrow> Inr (attrs r field)
      | Some (c, nullable) \<Rightarrow>
          (case attrs r field of
             PNone \<Rightarrow> if nullable then Inr PNone else Inl DoesNotExist
           | PModel k \<Rightarrow>
               (case get_object_or_None c (PStr k) w of
                  None \<Rightarrow> Inl DoesNotExist
                | Some x \<Rightarrow> Inr (PModel k))
           | v \<Rightarrow> Inr v))"

text \<open>
  The loop \<^verbatim>\<open>for field in fields\<close> of \<^verbatim>\<open>_hashable_representation\<close> on an
  instance: \<^verbatim>\<open>val = getattr(self, field)\<close> may raise, which ends the method.
\<close>

fun chunks_loop_db :: "lib \<Rightarrow> world \<Rightarrow> model_obj \<Rightarrow> string list \<Rightarrow> string list \<Rightarrow> error + string list" where
  "chunks_loop_db L w r [] chunks = Inr chunks"
| "chunks_loop_db L w r (field # flds) chunks =
     (case getattr_field w r field of
        Inl e \<Rightarrow> Inl e
      | Inr val \<Rightarrow>
          if truthy val then chunks_loop_db L w r flds (chunks @ [token (float_str L) field val])
          else chunks_loop_db L w r flds chunks)"

text \<open>
  \<^verbatim>\<open>self._hashable_representation()\<close> on an instance in a store, dispatched on the
  class: the canonical string, or the exception raised while reading a field.
\<close>

definition hashable_representation_db :: "lib \<Rightarrow> world \<Rightarrow> model_obj \<Rightarrow> error + string" where
  "hashable_representation_db L w r =
     (case chunks_loop_db L w r
             (hash_field_list (cls r)
                (if cls r = Device then Some [''signed_version'', ''name'', ''description'', ''public_key'']
                 else None)) [] of
        Inl e \<Rightarrow> Inl e
      | Inr chunks \<Rightarrow> Inr (join_amp chunks))"

text \<open>
  The body of the \<^verbatim>\<open>try\<close> of both \<^verbatim>\<open>verify\<close> methods: any exception raised
  while the canonical string is computed (\<open>hashed\<close> is then \<open>Inl\<close>), by the decoding or
  by \<^verbatim>\<open>crypto.verify\<close> gives False.
\<close>

definition try_crypto_verify :: "lib \<Rightarrow> error + string \<Rightarrow> model_obj \<Rightarrow> string \<Rightarrow> bool" where
  "try_crypto_verify L hashed r key =
     (case hashed of
        Inl e \<Rightarrow> False
      | Inr canonical \<Rightarrow>
          (case attrs r ''signature'' of
             PStr s \<Rightarrow>
               (case crypto_decode_base64 L s of
                  None \<Rightarrow> False
                | Some sig \<Rightarrow> (case crypto_verify L canonical sig key of None \<Rightarrow> False | Some b \<Rightarrow> b))
           | _ \<Rightarrow> False))"

definition SyncedModel_verify :: "lib \<Rightarrow> world \<Rightarrow> model_obj \<Rightarrow> error + bool" where
  "SyncedModel_verify L w r =
     (if \<not> truthy (attrs r ''signed_by_id'') then Inr False
      else case signed_by L w r of
        None \<Rightarrow> Inl DoesNotExist
      | Some signer \<Rightarrow>
          if requires_trusted_signature (cls r) \<and> \<not> is_trusted (get_metadata L w signer)
          then Inr False
          else (case get_public_key L signer of
                  None \<Rightarrow> Inl CryptoError
                | Some key \<Rightarrow>
                    Inr (try_crypto_verify L (hashable_representation_db L w r) r key)))"

definition Device_verify :: "lib \<Rightarrow> world \<Rightarrow> model_obj \<Rightarrow> error + bool" where
  "Device_verify L w r =
     (if attrs r ''signed_by_id'' \<noteq> obj_id r then Inr False
      else case get_public_key L r of
             None \<Rightarrow> Inl CryptoError
           | Some key \<Rightarrow> Inr (try_crypto_verify L (hashable_representation_db L w r) r key))"

text \<open>\<^verbatim>\<open>self.verify()\<close>, dispatched on the class.\<close>

definition verify :: "lib \<Rightarrow> world \<Rightarrow> model_obj \<Rightarrow> error + bool" where
  "verify L w r = (if cls r = Device then Device_verify L w r else SyncedModel_verify L w r)"

text \<open>
  \<^verbatim>\<open>SyncedModel.sign\<close> with the signing device given, as in every call of the module:
  \<^verbatim>\<open>signed_by\<close> becomes the device (its key is stored), the signature is the encoded
  \<^verbatim>\<open>crypto.sign\<close> of the canonical string. An exception raised while the canonical
  string is computed is not caught here; \<open>CryptoError\<close> when signing raises.
\<close>

definition sign :: "lib \<Rightarrow> world \<Rightarrow> model_obj \<Rightarrow> model_obj \<Rightarrow> error + model_obj" where
  "sign L w r device =
     (let r1 = r\<lparr>attrs := (attrs r)(''signed_by_id'' := obj_id device)\<rparr> in
      case hashable_representation_db L w r1 of
        Inl e \<Rightarrow> Inl e
      | Inr canonical \<Rightarrow>
          (case crypto_sign L canonical of
             None \<Rightarrow> Inl CryptoError
           | Some sig \<Rightarrow> Inr (r1\<lparr>attrs := (attrs r1)(''signature'' := PStr (crypto_encode_base64 L sig))\<rparr>)))"

section \<open>Saving\<close>

text \<open>
  The \<^verbatim>\<open>own_device\<close> argument of \<^verbatim>\<open>save\<close>: absent, the instance being saved itself
  (\<^verbatim>\<open>own_device.save(own_device=own_device)\<close>, where both names are one object), or
  another instance.
\<close>

datatype own_ref = OwnNone | OwnSelf | OwnObj model_obj

fun own_obj :: "own_ref \<Rightarrow> model_obj \<Rightarrow> model_obj" where
  "own_obj (OwnObj d) r = d"
| "own_obj own r = r"

definition signature_mismatch :: string where
  "signature_mismatch = ''Imported model'' @ [CHR 0x27] @ ''s signature did not match.''"

text \<open>The last steps of a local save: \<^verbatim>\<open>self.sign(device=own_device)\<close>, then the final save.\<close>

definition sign_and_save :: "lib \<Rightarrow> world \<Rightarrow> model_obj \<Rightarrow> own_ref \<Rightarrow> (error + model_obj) \<times> world" where
  "sign_and_save L w r own =
     (case sign L w r (own_obj own r) of
        Inl e \<Rightarrow> (Inl e, w)
      | Inr r' \<Rightarrow> (Inr r', Model_save L r' w))"

text \<open>
  \<^verbatim>\<open>self.signed_by.set_counter_position(self.counter)\<close> after an imported save. The
  counter of an \<^verbatim>\<open>IntegerField\<close> is an int or None; None is not greater than any
  number, so nothing changes.
\<close>

definition record_counter_position :: "lib \<Rightarrow> world \<Rightarrow> model_obj \<Rightarrow> (error + model_obj) \<times> world" where
  "record_counter_position L w r =
     (case signed_by L w r of
        None \<Rightarrow> (Inl DoesNotExist, w)
      | Some signer \<Rightarrow>
          (case attrs r ''counter'' of
             PInt n \<Rightarrow> (Inr r, set_counter_position L w signer n)
           | _ \<Rightarrow> (Inr r, w)))"

text \<open>
  \<^verbatim>\<open>SyncedModel.save\<close> from the test of \<^verbatim>\<open>imported\<close> on, with \<^verbatim>\<open>own_device\<close>
  resolved. \<open>uuid_method\<close> is the \<^verbatim>\<open>get_uuid\<close> of the instance's class. The result is
  the instance as the method leaves it, or the exception raised, with the store.
\<close>

definition save_resolved ::
    "lib \<Rightarrow> (world \<Rightarrow> model_obj \<Rightarrow> (error + pyval) \<times> world) \<Rightarrow> world \<Rightarrow> model_obj \<Rightarrow> own_ref \<Rightarrow> bool
      \<Rightarrow> (error + model_obj) \<times> world" where
  "save_resolved L uuid_method w r own imported =
     (if imported then
        if \<not> truthy (attrs r ''signed_by_id'')
        then (Inl (ValidationError ''Imported models must be signed.''), w)
        else (case verify L w r of
                Inl e \<Rightarrow> (Inl e, w)
              | Inr ok \<Rightarrow>
                  if \<not> ok then (Inl (ValidationError signature_mismatch), w)
                  else record_counter_position L (Model_save L r w) r)
      else
        (let (c, w1) = increment_and_get_counter L w (own_obj own r);
             r1 = r\<lparr>attrs := (attrs r)(''counter'' := PInt c)\<rparr>
         in if \<not> truthy (obj_id r1)
            then (case uuid_method w1 r1 of
                    (Inl e, w2) \<Rightarrow> (Inl e, w2)
                  | (Inr u, w2) \<Rightarrow>
                      (let r2 = r1\<lparr>attrs := (attrs r1)(''id'' := u)\<rparr>
                       in sign_and_save L (Model_save L r2 w2) r2 own))
            else sign_and_save L w1 r1 own))"

section \<open>The own device\<close>

text \<open>\<^verbatim>\<open>Device()\<close>: the field defaults.\<close>

definition new_Device :: model_obj where
  "new_Device = \<lparr>cls = Device,
     attrs = (\<lambda>name. PNone)(''id'' := PStr [], ''signature'' := PStr [], ''signed_version'' := PInt 1,
       ''deleted'' := PBool False, ''name'' := PStr [], ''description'' := PStr [],
       ''public_key'' := PStr [])\<rparr>"

text \<open>
  \<^verbatim>\<open>Device.initialize_own_device\<close>. Its \<^verbatim>\<open>save\<close> gets \<^verbatim>\<open>own_device\<close>, so it
  enters \<^verbatim>\<open>SyncedModel.save\<close> resolved, with the \<^verbatim>\<open>get_uuid\<close> of Device.
\<close>

definition initialize_own_device :: "lib \<Rightarrow> world \<Rightarrow> (error + model_obj) \<times> world" where
  "initialize_own_device L w =
     (let d0 = new_Device\<lparr>attrs := (attrs new_Device)
                 (''public_key'' := PStr (crypto_serialize_public_key L (crypto_get_public_key L)))\<rparr>
      in case sign L w d0 d0 of
           Inl e \<Rightarrow> (Inl e, w)
         | Inr d1 \<Rightarrow>
             (case save_resolved L (\<lambda>w d. (case Device_get_uuid L w d of (u, w') \<Rightarrow> (Inr u, w'))) w d1 OwnSelf False of
                (Inl e, w1) \<Rightarrow> (Inl e, w1)
              | (Inr own_device, w1) \<Rightarrow>
                  (let md = get_metadata L w1 own_device;
                       md' = md\<lparr>is_own_device := True, is_trusted := CENTRAL_SERVER L\<rparr>
                   in (Inr own_device, metadata_save md' w1))))"

text \<open>
  \<^verbatim>\<open>Device.get_own_device\<close>. \<^verbatim>\<open>devices[0].device\<close> is None when the row has no
  device, and raises \<^verbatim>\<open>DoesNotExist\<close> when the device row is missing.
\<close>

definition get_own_device :: "lib \<Rightarrow> world \<Rightarrow> (error + model_obj option) \<times> world" where
  "get_own_device L w =
     (case filter is_own_device (metadata w) of
        [] \<Rightarrow> (case initialize_own_device L w of
                 (Inl e, w') \<Rightarrow> (Inl e, w')
               | (Inr d, w') \<Rightarrow> (Inr (Some d), w'))
      | m # ms \<Rightarrow>
          (if md_device m = PNone then (Inr None, w)
           else case get_object_or_None Device (md_device m) w of
                  None \<Rightarrow> (Inl DoesNotExist, w)
                | Some d \<Rightarrow> (Inr (Some d), w)))"

text \<open>
  \<^verbatim>\<open>SyncedModel.get_uuid\<close>. \<^verbatim>\<open>uuid.UUID(own_device.id)\<close> raises on a string that is
  not a UUID (\<open>uuid_UUID\<close> gives None) and on a value that is not a string; None as own
  device raises as well.
\<close>

definition SyncedModel_get_uuid :: "lib \<Rightarrow> world \<Rightarrow> model_obj \<Rightarrow> (error + pyval) \<times> world" where
  "SyncedModel_get_uuid L w r =
     (case get_own_device L w of
        (Inl e, w') \<Rightarrow> (Inl e, w')
      | (Inr None, w') \<Rightarrow> (Inl AttributeError, w')
      | (Inr (Some own_device), w') \<Rightarrow>
          (if truthy (obj_id own_device)
           then (case obj_id own_device of
                   PStr s \<Rightarrow>
                     (case uuid_UUID L s of
                        None \<Rightarrow> (Inl ValueError, w')
                      | Some namespace \<Rightarrow>
                          (Inr (PStr (uuid_hex (uuid5 L namespace (py_str (float_str L) (attrs r ''counter''))))), w'))
                 | _ \<Rightarrow> (Inl AttributeError, w'))
           else (Inr (PStr (uuid_hex (uuid5 L (ROOT_UUID_NAMESPACE L)
                   (py_str (float_str L) (attrs r ''counter''))))), w')))"

text \<open>\<^verbatim>\<open>self.get_uuid()\<close>, dispatched on the class.\<close>

definition get_uuid :: "lib \<Rightarrow> world \<Rightarrow> model_obj \<Rightarrow> (error + pyval) \<times> world" where
  "get_uuid L w r =
     (if cls r = Device then (case Device_get_uuid L w r of (u, w') \<Rightarrow> (Inr u, w'))
      else SyncedModel_get_uuid L w r)"

definition unregistered :: string where
  "unregistered = ''Cannot save any synced models before registering this Device.''"

text \<open>\<^verbatim>\<open>SyncedModel.save(self, own_device=None, imported=False)\<close>.\<close>

definition SyncedModel_save :: "lib \<Rightarrow> world \<Rightarrow> model_obj \<Rightarrow> own_ref \<Rightarrow> bool \<Rightarrow> (error + model_obj) \<times> world" where
  "SyncedModel_save L w r own imported =
     (case own of
        OwnNone \<Rightarrow>
          (case get_own_device L w of
             (Inl e, w') \<Rightarrow> (Inl e, w')
           | (Inr None, w') \<Rightarrow> (Inl (ValidationError unregistered), w')
           | (Inr (Some d), w') \<Rightarrow> save_resolved L (get_uuid L) w' r (OwnObj d) imported)
      | _ \<Rightarrow> save_resolved L (get_uuid L) w r own imported)"

text \<open>\<^verbatim>\<open>Device.save(self, is_trusted=False, ...)\<close>.\<close>

definition Device_save :: "lib \<Rightarrow> world \<Rightarrow> model_obj \<Rightarrow> bool \<Rightarrow> own_ref \<Rightarrow> bool \<Rightarrow> (error + model_obj) \<times> world" where
  "Device_save L w r trusted own imported =
     (case SyncedModel_save L w r own imported of
        (Inl e, w') \<Rightarrow> (Inl e, w')
      | (Inr r', w') \<Rightarrow>
          (if trusted
           then (let md = get_metadata L w' r' in (Inr r', metadata_save (md\<lparr>is_trusted := True\<rparr>) w'))
           else (Inr r', w')))"

text \<open>\<^verbatim>\<open>obj.save(own_device=..., imported=...)\<close>, dispatched on the class.\<close>

definition save :: "lib \<Rightarrow> world \<Rightarrow> model_obj \<Rightarrow> own_ref \<Rightarrow> bool \<Rightarrow> (error + model_obj) \<times> world" where
  "save L w r own imported =
     (if cls r = Device then Device_save L w r False own imported
      else SyncedModel_save L w r own imported)"

section \<open>Import and purgatory\<close>

definition new_ImportPurgatory :: import_purgatory where
  "new_ImportPurgatory =
     \<lparr>pk = None, p_counter = PNone, retry_attempts = 0, serialized_models = [], exceptions = []\<rparr>"

text \<open>
  \<^verbatim>\<open>ImportPurgatory.save\<close>: a falsy counter is replaced by the own device's counter; then
  the row with the instance's key is updated, or a row is inserted (under the next key when
  the instance has none). The timestamp is left out.
\<close>

definition ImportPurgatory_save :: "lib \<Rightarrow> world \<Rightarrow> import_purgatory \<Rightarrow> (error + import_purgatory) \<times> world" where
  "ImportPurgatory_save L w p =
     (let filled =
        (if truthy (p_counter p) then (Inr p, w)
         else case get_own_device L w of
                (Inl e, w') \<Rightarrow> (Inl e, w')
              | (Inr None, w') \<Rightarrow> (Inl AttributeError, w')
              | (Inr (Some d), w') \<Rightarrow> (Inr (p\<lparr>p_counter := PInt (get_counter L w' d)\<rparr>), w'))
      in case filled of
           (Inl e, w') \<Rightarrow> (Inl e, w')
         | (Inr p1, w') \<Rightarrow>
             (case pk p1 of
                None \<Rightarrow>
                  (let p2 = p1\<lparr>pk := Some (next_pk w')\<rparr>
                   in (Inr p2, w'\<lparr>purgatory := purgatory w' @ [p2], next_pk := Suc (next_pk w')\<rparr>))
              | Some k \<Rightarrow>
                  (if \<exists>x \<in> set (purgatory w'). pk x = Some k
                   then (Inr p1, w'\<lparr>purgatory := map (\<lambda>x. if pk x = Some k then p1 else x) (purgatory w')\<rparr>)
                   else (Inr p1, w'\<lparr>purgatory := purgatory w' @ [p1],
                                     next_pk := max (next_pk w') (Suc k)\<rparr>))))"

text \<open>\<^verbatim>\<open>purgatory.delete()\<close>: an instance without a key fails the assertion of Django.\<close>

definition ImportPurgatory_delete :: "world \<Rightarrow> import_purgatory \<Rightarrow> (error + unit) \<times> world" where
  "ImportPurgatory_delete w p =
     (case pk p of
        None \<Rightarrow> (Inl AssertionError, w)
      | Some k \<Rightarrow> (Inr (), w\<lparr>purgatory := filter (\<lambda>x. pk x \<noteq> Some k) (purgatory w)\<rparr>))"

datatype sync_data = PurgatoryData import_purgatory | TextData string | PythonData "serialized_obj list"

record import_result =
  unsaved_model_count :: nat
  saved_model_count :: nat

text \<open>
  The loop \<^verbatim>\<open>for model in models\<close> of \<^verbatim>\<open>save_serialized_models\<close>: only a
  \<^verbatim>\<open>ValidationError\<close> is caught; any other exception ends the function.
\<close>

fun import_loop ::
    "lib \<Rightarrow> world \<Rightarrow> model_obj list \<Rightarrow> model_obj list \<Rightarrow> string \<Rightarrow> nat
      \<Rightarrow> (error + model_obj list \<times> string \<times> nat) \<times> world" where
  "import_loop L w [] unsaved excs count = (Inr (unsaved, excs, count), w)"
| "import_loop L w (model # models) unsaved excs count =
     (case save L w model OwnNone True of
        (Inr saved, w') \<Rightarrow> import_loop L w' models unsaved excs (count + 1)
      | (Inl (ValidationError msg), w') \<Rightarrow>
          import_loop L w' models (unsaved @ [model])
            (excs @ validation_error_str L msg @ [CHR 0x0A]) count
      | (Inl e, w') \<Rightarrow> (Inl e, w'))"

definition save_serialized_models :: "lib \<Rightarrow> world \<Rightarrow> sync_data \<Rightarrow> (error + import_result) \<times> world" where
  "save_serialized_models L w data =
     (let (purg, data') = (case data of
                             PurgatoryData p \<Rightarrow> (Some p, TextData (serialized_models p))
                           | d \<Rightarrow> (None, d));
          (models, raises) = (case data' of
                                PythonData ds \<Rightarrow> python_deserialize L ds
                              | TextData s \<Rightarrow> json_deserialize L s
                              | PurgatoryData p \<Rightarrow> ([], True))
      in case import_loop L w models [] [] 0 of
           (Inl e, w1) \<Rightarrow> (Inl e, w1)
         | (Inr (unsaved_models, excs, saved), w1) \<Rightarrow>
             if raises then (Inl DeserializationError, w1)
             else
               (let result = \<lparr>unsaved_model_count = length unsaved_models, saved_model_count = saved\<rparr>
                in if unsaved_models \<noteq> [] then
                     (let p = (case purg of None \<Rightarrow> new_ImportPurgatory | Some p \<Rightarrow> p);
                          p' = p\<lparr>serialized_models := json_serialize L unsaved_models,
                                 exceptions := excs,
                                 retry_attempts := retry_attempts p + 1\<rparr>
                      in case ImportPurgatory_save L w1 p' of
                           (Inl e, w2) \<Rightarrow> (Inl e, w2)
                         | (Inr saved_p, w2) \<Rightarrow> (Inr result, w2))
                   else (case purg of
                           Some p \<Rightarrow>
                             (case ImportPurgatory_delete w1 p of
                                (Inl e, w2) \<Rightarrow> (Inl e, w2)
                              | (Inr u, w2) \<Rightarrow> (Inr result, w2))
                         | None \<Rightarrow> (Inr result, w1))))"

text \<open>
  The claim's words, for comparison with the loop: the records of a batch whose imported
  save raises a validation error, each with its message, every save starting from the store
  the one before left.
\<close>

fun validation_failures :: "lib \<Rightarrow> world \<Rightarrow> model_obj list \<Rightarrow> (model_obj \<times> string) list" where
  "validation_failures L w [] = []"
| "validation_failures L w (m # ms) =
     (case save L w m OwnNone True of
        (Inr saved, w') \<Rightarrow> validation_failures L w' ms
      | (Inl (ValidationError msg), w') \<Rightarrow> (m, msg) # validation_failures L w' ms
      | (Inl e, w') \<Rightarrow> [])"

text \<open>The instances a batch deserializes to, and the purgatory row it came from.\<close>

definition deserialized :: "lib \<Rightarrow> sync_data \<Rightarrow> model_obj list" where
  "deserialized L data =
     (case data of
        PurgatoryData p \<Rightarrow> fst (json_deserialize L (serialized_models p))
      | TextData s \<Rightarrow> fst (json_deserialize L s)
      | PythonData ds \<Rightarrow> fst (python_deserialize L ds))"

definition retried :: "sync_data \<Rightarrow> import_purgatory option" where
  "retried data = (case data of PurgatoryData p \<Rightarrow> Some p | _ \<Rightarrow> None)"

section \<open>Zones\<close>

text \<open>
  A zone is a Zone instance (\<open>PModel\<close> of its key) or None; two instances are equal when
  their keys are. \<open>fk_of\<close> is the foreign key that refers to the row with the given key.
\<close>

fun fk_of :: "pyval \<Rightarrow> pyval" where
  "fk_of (PStr k) = PModel k"
| "fk_of v = PNone"

text \<open>\<^verbatim>\<open>self.devicezone_set.all()\<close>: the DeviceZone rows of a device.\<close>

definition devicezone_set :: "lib \<Rightarrow> world \<Rightarrow> model_obj \<Rightarrow> model_obj list" where
  "devicezone_set L w d =
     filter (\<lambda>x. cls x = DeviceZone \<and> fk_of (db_prep L (obj_id d)) \<noteq> PNone
                  \<and> attrs x ''device'' = fk_of (db_prep L (obj_id d))) (rows w)"

text \<open>
  \<^verbatim>\<open>Device.get_zone\<close>: \<^verbatim>\<open>zones and zones[0].zone or None\<close>. Reading the zone of
  the first row fetches the Zone row and raises when it is missing.
\<close>

definition Device_get_zone :: "lib \<Rightarrow> world \<Rightarrow> model_obj \<Rightarrow> error + pyval" where
  "Device_get_zone L w d =
     (case devicezone_set L w d of
        [] \<Rightarrow> Inr PNone
      | z # zs \<Rightarrow>
          (case getattr_field w z ''zone'' of
             Inl e \<Rightarrow> Inl e
           | Inr zone \<Rightarrow> Inr (if truthy zone then zone else PNone)))"

text \<open>\<^verbatim>\<open>device.in_zone(zone)\<close>: \<^verbatim>\<open>zone == self.get_zone()\<close>.\<close>

definition Device_in_zone :: "lib \<Rightarrow> world \<Rightarrow> model_obj \<Rightarrow> pyval \<Rightarrow> error + bool" where
  "Device_in_zone L w d zone =
     (case Device_get_zone L w d of
        Inl e \<Rightarrow> Inl e
      | Inr z \<Rightarrow> Inr (zone = z))"

text \<open>
  \<^verbatim>\<open>Device.objects.by_zone(zone)\<close>: the devices signed by a device of the zone, or
  signed by a trusted device with the zone as fallback. A test against None is the null
  test of the query: it holds where the joined row or its column is missing.
\<close>

definition Device_by_zone :: "lib \<Rightarrow> world \<Rightarrow> pyval \<Rightarrow> model_obj list" where
  "Device_by_zone L w zone =
     filter (\<lambda>d. cls d = Device \<and>
        ((case signed_by L w d of
            None \<Rightarrow> zone = PNone
          | Some s \<Rightarrow>
              (if zone = PNone
               then devicezone_set L w s = [] \<or> list_ex (\<lambda>dz. attrs dz ''zone'' = PNone) (devicezone_set L w s)
               else list_ex (\<lambda>dz. attrs dz ''zone'' = zone) (devicezone_set L w s)))
         \<or> ((case signed_by L w d of
                None \<Rightarrow> False
              | Some s \<Rightarrow> list_ex (\<lambda>m. md_device m = obj_id s \<and> is_trusted m) (metadata w))
            \<and> attrs d ''zone_fallback'' = zone))) (rows w)"

text \<open>\<^verbatim>\<open>get_device_counters(zone)\<close>.\<close>

definition get_device_counters :: "lib \<Rightarrow> world \<Rightarrow> pyval \<Rightarrow> (pyval \<times> int) list" where
  "get_device_counters L w zone =
     fold (\<lambda>device device_counters.
             if obj_id device \<notin> set (map fst device_counters)
             then device_counters @ [(obj_id device, counter_position (get_metadata L w device))]
             else device_counters)
          (Device_by_zone L w zone) []"

section \<open>The batch selector\<close>

text \<open>The counter column of a row; None for a null.\<close>

definition counter_of :: "model_obj \<Rightarrow> int option" where
  "counter_of x = (case attrs x ''counter'' of PInt n \<Rightarrow> Some n | _ \<Rightarrow> None)"

text \<open>
  The first loop of \<^verbatim>\<open>get_serialized_models\<close>: the requested devices that do not
  exist, or are neither in the zone nor trusted, are removed from \<^verbatim>\<open>device_counters\<close>.
\<close>

fun keep_devices :: "lib \<Rightarrow> world \<Rightarrow> pyval \<Rightarrow> (pyval \<times> int) list \<Rightarrow> error + (pyval \<times> int) list" where
  "keep_devices L w zone [] = Inr []"
| "keep_devices L w zone ((device_id, counter) # rest) =
     (case get_object_or_None Device device_id w of
        None \<Rightarrow> keep_devices L w zone rest
      | Some device \<Rightarrow>
          (case Device_in_zone L w device zone of
             Inl e \<Rightarrow> Inl e
           | Inr in_zone \<Rightarrow>
               if in_zone \<or> is_trusted (get_metadata L w device)
               then (case keep_devices L w zone rest of
                       Inl e \<Rightarrow> Inl e
                     | Inr kept \<Rightarrow> Inr ((device_id, counter) # kept))
               else keep_devices L w zone rest))"

text \<open>
  The inner loop, \<^verbatim>\<open>for device_id, counter in device_counters.items()\<close>, for one model
  class. The state of the loop is the list \<open>models\<close> and the flag
  \<open>instances_remaining\<close>.
\<close>

fun scan_devices ::
    "lib \<Rightarrow> world \<Rightarrow> pyval \<Rightarrow> int \<Rightarrow> int \<Rightarrow> model_class \<Rightarrow> (pyval \<times> int) list
      \<Rightarrow> model_obj list \<times> bool \<Rightarrow> error + model_obj list \<times> bool" where
  "scan_devices L w zone limit boost Model [] acc = Inr acc"
| "scan_devices L w zone limit boost Model ((device_id, counter) # rest) (models, instances_remaining) =
     (case get_object_or_None Device device_id w of
        None \<Rightarrow> Inl DoesNotExist
      | Some device \<Rightarrow>
          (case Device_in_zone L w device zone of
             Inl e \<Rightarrow> Inl e
           | Inr in_zone \<Rightarrow>
               (let queryset = filter (\<lambda>x. cls x = Model \<and> attrs x ''signed_by_id'' = obj_id device) (rows w)
                in if \<not> in_zone \<and> \<not> is_trusted (get_metadata L w device)
                   then scan_devices L w zone limit boost Model rest (models, instances_remaining)
                   else
                     (let queryset' = (if \<not> in_zone
                                       then filter (\<lambda>x. attrs x ''zone_fallback'' = zone) queryset
                                       else queryset);
                          remaining' = (if \<not> instances_remaining \<and>
                                           length (filter (\<lambda>x. case counter_of x of
                                                                  Some n \<Rightarrow> n \<ge> counter + limit + boost
                                                                | None \<Rightarrow> False) queryset') > 0
                                        then True else instances_remaining)
                      in scan_devices L w zone limit boost Model rest
                           (models @ filter (\<lambda>x. case counter_of x of
                                                    Some n \<Rightarrow> n \<ge> counter \<and> n < counter + limit + boost
                                                  | None \<Rightarrow> False) queryset',
                            remaining')))))"

text \<open>The outer loop, \<^verbatim>\<open>for Model in settings.syncing_models\<close>.\<close>

fun scan_models ::
    "lib \<Rightarrow> world \<Rightarrow> pyval \<Rightarrow> int \<Rightarrow> int \<Rightarrow> model_class list \<Rightarrow> (pyval \<times> int) list
      \<Rightarrow> model_obj list \<times> bool \<Rightarrow> error + model_obj list \<times> bool" where
  "scan_models L w zone limit boost [] device_counters acc = Inr acc"
| "scan_models L w zone limit boost (Model # Models) device_counters acc =
     (case scan_devices L w zone limit boost Model device_counters acc of
        Inl e \<Rightarrow> Inl e
      | Inr acc' \<Rightarrow> scan_models L w zone limit boost Models device_counters acc')"

text \<open>
  The loop \<^verbatim>\<open>while True\<close>: it ends once models were found or none remain, and runs
  again with a larger boost otherwise. It need not end (with \<open>limit \<le> 0\<close>), so the
  result is an option; \<open>None\<close> is a loop that runs forever. The result carries the boost
  of the last round.
\<close>

partial_function (option) select_loop ::
    "lib \<Rightarrow> world \<Rightarrow> pyval \<Rightarrow> int \<Rightarrow> (pyval \<times> int) list \<Rightarrow> model_obj list \<Rightarrow> int
      \<Rightarrow> (error + model_obj list \<times> int) option" where
  "select_loop L w zone limit device_counters models boost =
     (case scan_models L w zone limit boost (syncing_models L) device_counters (models, False) of
        Inl e \<Rightarrow> Some (Inl e)
      | Inr found \<Rightarrow>
          if length (fst found) > 0 \<or> \<not> snd found then Some (Inr (fst found, boost))
          else select_loop L w zone limit device_counters (fst found) (boost + limit))"

text \<open>
  \<^verbatim>\<open>get_serialized_models\<close> up to the serialization: the zone and the counters are
  defaulted, the requested devices are filtered, and the loop selects the models.
\<close>

definition select_models ::
    "lib \<Rightarrow> world \<Rightarrow> (pyval \<times> int) list option \<Rightarrow> int \<Rightarrow> pyval
      \<Rightarrow> (error + model_obj list \<times> int) option \<times> world" where
  "select_models L w device_counters limit zone =
     (case (if \<not> truthy zone
            then (case get_own_device L w of
                    (Inl e, w') \<Rightarrow> (Inl e, w')
                  | (Inr None, w') \<Rightarrow> (Inl AttributeError, w')
                  | (Inr (Some d), w') \<Rightarrow> (Device_get_zone L w' d, w'))
            else (Inr zone, w)) of
        (Inl e, w') \<Rightarrow> (Some (Inl e), w')
      | (Inr zone', w') \<Rightarrow>
          (let dcs = (case device_counters of
                        None \<Rightarrow> map (\<lambda>k. (k, 0)) (remdups (map obj_id (Device_by_zone L w' zone')))
                      | Some dcs \<Rightarrow> dcs)
           in case keep_devices L w' zone' dcs of
                Inl e \<Rightarrow> (Some (Inl e), w')
              | Inr kept \<Rightarrow> (select_loop L w' zone' limit kept [] 0, w')))"

datatype serialized = Serialized string | SerializedCount string nat

definition get_serialized_models ::
    "lib \<Rightarrow> world \<Rightarrow> (pyval \<times> int) list option \<Rightarrow> int \<Rightarrow> pyval \<Rightarrow> bool
      \<Rightarrow> (error + serialized) option \<times> world" where
  "get_serialized_models L w device_counters limit zone include_count =
     (case select_models L w device_counters limit zone of
        (None, w') \<Rightarrow> (None, w')
      | (Some (Inl e), w') \<Rightarrow> (Some (Inl e), w')
      | (Some (Inr (models, boost)), w') \<Rightarrow>
          (let serialized_models = json_serialize L models
           in if include_count then (Some (Inr (SerializedCount serialized_models (length models))), w')
              else (Some (Inr (Serialized serialized_models)), w')))"

section \<open>Rounds of a pulling client\<close>

text \<open>
  Modelled from the spec: the client that pulls batches is not part of this module. By the
  spec a device's \<^verbatim>\<open>counter_position\<close> for a remote device is the highest counter
  seen from it, the client sends its \<^verbatim>\<open>device_counters\<close> as its knowledge, and every
  record it imports ends with \<^verbatim>\<open>set_counter_position(signed_by, counter)\<close>. So a round
  reads the client's knowledge with \<open>get_device_counters\<close>, selects on the server, and
  records the counter of every record received, each taken as accepted by the import.
\<close>

definition client_import :: "lib \<Rightarrow> world \<Rightarrow> model_obj list \<Rightarrow> world" where
  "client_import L cw batch = fold (\<lambda>r cw. snd (record_counter_position L cw r)) batch cw"

text \<open>
  Modelled from the spec: one round of the client, which is not part of this module. It
  gives the models and the boost of the round and the client's store after the import.
\<close>

definition sync_round ::
    "lib \<Rightarrow> world \<Rightarrow> world \<Rightarrow> pyval \<Rightarrow> int \<Rightarrow> (model_obj list \<times> int \<times> world) option" where
  "sync_round L server cw zone limit =
     (case select_models L server (Some (get_device_counters L cw zone)) limit zone of
        (Some (Inr (models, boost)), server') \<Rightarrow> Some (models, boost, client_import L cw models)
      | _ \<Rightarrow> None)"

text \<open>
  Modelled from the spec: \<open>n\<close> rounds of the client in a row, with what each returned.
\<close>

fun sync_rounds ::
    "lib \<Rightarrow> world \<Rightarrow> world \<Rightarrow> pyval \<Rightarrow> int \<Rightarrow> nat \<Rightarrow> ((model_obj list \<times> int) list \<times> world) option" where
  "sync_rounds L server cw zone limit 0 = Some ([], cw)"
| "sync_rounds L server cw zone limit (Suc n) =
     (case sync_round L server cw zone limit of
        None \<Rightarrow> None
      | Some (models, boost, cw') \<Rightarrow>
          (case sync_rounds L server cw' zone limit n of
             None \<Rightarrow> None
           | Some (rounds, cw'') \<Rightarrow> Some ((models, boost) # rounds, cw'')))"

section \<open>Concrete instances for evaluation\<close>

text \<open>
  A fixed instance of the external collaborators and a few concrete stores and
  instances, on which the model is evaluated.
\<close>

definition hex_value :: "char \<Rightarrow> nat option" where
  "hex_value c =
     (let n = of_char c :: nat in
      if 48 \<le> n \<and> n \<le> 57 then Some (n - 48)
      else if 97 \<le> n \<and> n \<le> 102 then Some (n - 87)
      else None)"

fun parse_hex :: "string \<Rightarrow> nat \<Rightarrow> nat option" where
  "parse_hex [] acc = Some acc"
| "parse_hex (c # cs) acc =
     (case hex_value c of None \<Rightarrow> None | Some d \<Rightarrow> parse_hex cs (16 * acc + d))"

definition stub_object :: "serialized_obj \<Rightarrow> model_obj" where
  "stub_object d = \<lparr>cls = Facility,
     attrs = (\<lambda>name. if name = ''id'' then s_pk d
                     else (case map_of (s_fields d) name of Some v \<Rightarrow> v | None \<Rightarrow> PNone))\<rparr>"

definition stub_lib :: lib where
  "stub_lib = \<lparr>
     float_str = (\<lambda>w. ''0.5''),
     uuid5 = (\<lambda>ns name. ns + word_of_nat (length name) + 1),
     uuid4 = (\<lambda>n. word_of_nat n),
     uuid_UUID = (\<lambda>s. if length s = 32 then map_option word_of_nat (parse_hex s 0) else None),
     crypto_sign = (\<lambda>msg. Some (''K:'' @ msg)),
     crypto_verify = (\<lambda>msg sig key. Some (sig = key @ '':'' @ msg)),
     crypto_encode_base64 = (\<lambda>s. s),
     crypto_decode_base64 = (\<lambda>s. Some s),
     crypto_get_public_key = ''K'',
     crypto_serialize_public_key = (\<lambda>k. k),
     crypto_deserialize_public_key = (\<lambda>s. Some s),
     CENTRAL_SERVER_HOST = ''central'',
     CENTRAL_SERVER = False,
     syncing_models = [Facility, FacilityGroup, FacilityUser, SyncedLog],
     json_serialize = (\<lambda>ms. concat (map (\<lambda>m. py_str (\<lambda>w. ''0.5'') (attrs m ''id'') @ '';'') ms)),
     json_deserialize = (\<lambda>s. ([], False)),
     python_deserialize = (\<lambda>ds. (map stub_object ds, False)),
     validation_error_str = (\<lambda>msg. msg)\<rparr>"

definition empty_world :: world where
  "empty_world = \<lparr>rows = [], metadata = [], purgatory = [], next_pk = 1, draws = 0\<rparr>"

definition no_attrs :: "string \<Rightarrow> pyval" where
  "no_attrs = (\<lambda>name. PNone)"

definition demo_device :: model_obj where
  "demo_device = \<lparr>cls = Device,
     attrs = no_attrs(''id'' := PStr ''ab'', ''signed_version'' := PInt 1, ''public_key'' := PStr ''K'')\<rparr>"

definition unsaved_device :: model_obj where
  "unsaved_device = \<lparr>cls = Device,
     attrs = no_attrs(''id'' := PStr [], ''signed_version'' := PInt 1)\<rparr>"

text \<open>The length of \<^verbatim>\<open>"&".join(cs)\<close> plus one, when \<open>cs\<close> is not empty.\<close>

definition weight :: "string list \<Rightarrow> nat" where
  "weight cs = sum_list (map (\<lambda>c. Suc (length c)) cs)"

definition own_id :: string where
  "own_id = ''00000000000000000000000000000001''"

definition own_dev :: model_obj where
  "own_dev = \<lparr>cls = Device,
     attrs = no_attrs(''id'' := PStr own_id, ''counter'' := PInt 0, ''signed_version'' := PInt 1,
       ''signed_by_id'' := PStr own_id, ''public_key'' := PStr ''K'')\<rparr>"

text \<open>A store after the bootstrap: the own device and its metadata row.\<close>

definition demo_world :: world where
  "demo_world = \<lparr>rows = [own_dev],
     metadata = [\<lparr>md_device = PStr own_id, is_trusted = False, is_own_device = True, counter_position = 0\<rparr>],
     purgatory = [], next_pk = 1, draws = 0\<rparr>"

text \<open>A record signed by the own device, one whose signer is unknown, and an unsigned one.\<close>

definition facility_rec :: model_obj where
  "facility_rec = \<lparr>cls = Facility,
     attrs = no_attrs(''id'' := PStr ''f1'', ''counter'' := PInt 1, ''signed_version'' := PInt 1,
       ''name'' := PStr ''School'', ''signed_by_id'' := PStr own_id,
       ''signature'' := PStr ''K:counter=1&id=f1&name=School&signed_version=1'')\<rparr>"

definition orphan_record :: model_obj where
  "orphan_record = \<lparr>cls = Facility,
     attrs = no_attrs(''id'' := PStr ''f1'', ''counter'' := PInt 1, ''signed_version'' := PInt 1,
       ''signed_by_id'' := PStr ''ab'', ''signature'' := PStr ''sig'')\<rparr>"

text \<open>
  A user signed by the own device whose facility is not in the store; the signature is the
  stub's signature of its canonical string.
\<close>

definition user_rec :: model_obj where
  "user_rec = \<lparr>cls = FacilityUser,
     attrs = no_attrs(''id'' := PStr ''u1'', ''counter'' := PInt 2, ''signed_version'' := PInt 1,
       ''facility'' := PModel ''F1'', ''username'' := PStr ''alice'', ''signed_by_id'' := PStr own_id,
       ''signature'' := PStr ''K:counter=2&facility=F1&id=u1&signed_version=1&username=alice'')\<rparr>"

definition unsigned_rec :: model_obj where
  "unsigned_rec = \<lparr>cls = Facility,
     attrs = no_attrs(''id'' := PStr ''f2'', ''counter'' := PInt 1, ''signed_version'' := PInt 1)\<rparr>"

text \<open>Instances that are not saved yet: a facility, and another device with a public key.\<close>

definition new_facility :: model_obj where
  "new_facility = \<lparr>cls = Facility,
     attrs = no_attrs(''id'' := PStr [], ''signed_version'' := PInt 1, ''name'' := PStr ''School'')\<rparr>"

definition peer_device :: model_obj where
  "peer_device = \<lparr>cls = Device,
     attrs = no_attrs(''id'' := PStr [], ''signed_version'' := PInt 1, ''public_key'' := PStr ''P'')\<rparr>"

text \<open>A batch of one unsigned record, and a store holding a purgatory row to retry.\<close>

definition demo_entry :: serialized_obj where
  "demo_entry = \<lparr>s_model = ''securesync.facility'', s_pk = PStr ''f2'',
     s_fields = [(''counter'', PInt 1), (''signed_version'', PInt 1)]\<rparr>"

definition demo_batch :: sync_data where
  "demo_batch = PythonData [demo_entry]"

definition retry_row :: import_purgatory where
  "retry_row = \<lparr>pk = Some 1, p_counter = PInt 1, retry_attempts = 1, serialized_models = ''[]'',
     exceptions = ''e''\<rparr>"

definition purgatory_world :: world where
  "purgatory_world = demo_world\<lparr>purgatory := [retry_row], next_pk := 2\<rparr>"

text \<open>
  A device D of zone Z with 250 records, counters 1 to 250, on the server; the client knows
  the device and its zone and has seen none of its records.
\<close>

definition zone_Z :: pyval where
  "zone_Z = PModel ''Z''"

definition dev_D :: model_obj where
  "dev_D = \<lparr>cls = Device,
     attrs = no_attrs(''id'' := PStr ''D'', ''signed_version'' := PInt 1,
       ''signed_by_id'' := PStr ''D'', ''public_key'' := PStr ''K'')\<rparr>"

definition zone_row :: model_obj where
  "zone_row = \<lparr>cls = Zone,
     attrs = no_attrs(''id'' := PStr ''Z'', ''counter'' := PInt 1, ''signed_version'' := PInt 1,
       ''name'' := PStr ''zone'')\<rparr>"

definition dz_D :: model_obj where
  "dz_D = \<lparr>cls = DeviceZone,
     attrs = no_attrs(''id'' := PStr ''dz'', ''counter'' := PInt 1, ''signed_version'' := PInt 1,
       ''device'' := PModel ''D'', ''zone'' := PModel ''Z'')\<rparr>"

definition rec_D :: "nat \<Rightarrow> model_obj" where
  "rec_D i = \<lparr>cls = Facility,
     attrs = no_attrs(''id'' := PStr (CHR ''r'' # str_nat i), ''counter'' := PInt (int i),
       ''signed_version'' := PInt 1, ''signed_by_id'' := PStr ''D'')\<rparr>"

definition server_world :: world where
  "server_world = \<lparr>rows = [dev_D, zone_row, dz_D] @ map rec_D [1..<251], metadata = [], purgatory = [],
     next_pk = 1, draws = 0\<rparr>"

definition client_world :: world where
  "client_world = \<lparr>rows = [dev_D, zone_row, dz_D], metadata = [], purgatory = [], next_pk = 1,
     draws = 0\<rparr>"

section \<open>Properties of the canonical hash string\<close>

lemma hash_field_list_Device:
  "hash_field_list c (Some [''signed_version'', ''name'', ''description'', ''public_key''])
     = [''id'', ''signed_version'', ''name'', ''description'', ''public_key'']"
  by (simp add: hash_field_list_def always_hash_fields_def)

lemma chunks_loop_acc: "chunks_loop fs a flds acc = acc @ chunks_loop fs a flds []"
proof (induction flds arbitrary: acc)
  case Nil show ?case by simp
next
  case (Cons f flds)
  show ?case using Cons.IH [of "acc @ [token fs f (a f)]"] Cons.IH [of "[token fs f (a f)]"] Cons.IH [of acc]
    by (simp add: Let_def)
qed

lemma chunks_loop_filter:
  "chunks_loop fs a flds [] = map (\<lambda>g. token fs g (a g)) (filter (\<lambda>g. truthy (a g)) flds)"
proof (induction flds)
  case Nil show ?case by simp
next
  case (Cons f flds)
  show ?case using chunks_loop_acc [of fs a flds "[token fs f (a f)]"] Cons
    by (simp add: Let_def)
qed

lemma length_join_amp: "length (join_amp cs) = weight cs - 1"
proof (induction cs rule: join_amp.induct)
  case 1 show ?case by (simp add: weight_def)
next
  case (2 c) show ?case by (simp add: weight_def)
next
  case (3 c d ds)
  then show ?case by (simp add: weight_def)
qed

lemma weight_falsy_to_truthy:
  assumes "\<not> truthy (a f)" "truthy v"
  shows "weight (chunks_loop fs a flds []) \<le> weight (chunks_loop fs (a(f := v)) flds [])
       \<and> (f \<in> set flds \<longrightarrow> weight (chunks_loop fs a flds []) + 2 \<le> weight (chunks_loop fs (a(f := v)) flds []))"
  using assms unfolding chunks_loop_filter
  by (induction flds) (auto simp: weight_def token_def)

lemma chunks_loop_removeAll:
  "\<not> truthy (a f) \<Longrightarrow> chunks_loop fs a (removeAll f flds) [] = chunks_loop fs a flds []"
  unfolding chunks_loop_filter by (induction flds) auto

lemma demo_device_hash:
  "Device_hashable_representation (\<lambda>w. []) demo_device = ''id=ab&signed_version=1&public_key=K''"
  by code_simp

lemma demo_device_four_fields:
  "join_amp (chunks_loop (\<lambda>w. []) (attrs demo_device)
     [''signed_version'', ''name'', ''description'', ''public_key''] []) = ''signed_version=1&public_key=K''"
  by code_simp

text \<open>
  C3, as stated: the canonical hash string of a Device is built from exactly the fields
  signed_version, name, description, public_key. It fails on a device whose id is set:
  the always-hashed field id is put in front of the list and contributes the first token.
\<close>

theorem device_hash_four_fields_counterexample:
  "Device_hashable_representation (\<lambda>w. []) demo_device
     \<noteq> join_amp (chunks_loop (\<lambda>w. []) (attrs demo_device)
          [''signed_version'', ''name'', ''description'', ''public_key''] [])"
  unfolding demo_device_hash demo_device_four_fields by simp

text \<open>
  C3, amended: the canonical hash string of a Device is built from exactly the fields
  id, signed_version, name, description, public_key, in that order (id first, since it is
  always hashed); counter never contributes a token: the string does not depend on it.
\<close>

theorem device_hash_fields:
  "Device_hashable_representation fs d =
     join_amp (chunks_loop fs (attrs d) [''id'', ''signed_version'', ''name'', ''description'', ''public_key''] [])
   \<and> Device_hashable_representation fs (d\<lparr>attrs := (attrs d)(''counter'' := v)\<rparr>)
       = Device_hashable_representation fs d"
  by (simp add: Device_hashable_representation_def SyncedModel_hashable_representation_def
      hash_chunks_def hash_field_list_Device Let_def)

text \<open>
  C8: for a field \<open>f\<close> of the list that is hashed, a falsy value contributes no token: the
  tokens are those of the list without \<open>f\<close>; a truthy value contributes the token
  \<open>f=value\<close>; and setting a falsy field to a truthy value changes the canonical string
  (it gets longer), so a signature over the old string is not one over the new string.
\<close>

theorem falsy_field_excluded:
  assumes "f \<in> set (hash_field_list (cls r) flds)"
  shows "(\<not> truthy (attrs r f) \<longrightarrow>
            hash_chunks fs r flds = chunks_loop fs (attrs r) (removeAll f (hash_field_list (cls r) flds)) [])
       \<and> (truthy (attrs r f) \<longrightarrow> token fs f (attrs r f) \<in> set (hash_chunks fs r flds))
       \<and> (\<not> truthy (attrs r f) \<and> truthy v \<longrightarrow>
            SyncedModel_hashable_representation fs (r\<lparr>attrs := (attrs r)(f := v)\<rparr>) flds
              \<noteq> SyncedModel_hashable_representation fs r flds)"
proof (intro conjI impI)
  assume "\<not> truthy (attrs r f)"
  then show "hash_chunks fs r flds = chunks_loop fs (attrs r) (removeAll f (hash_field_list (cls r) flds)) []"
    by (simp add: hash_chunks_def chunks_loop_removeAll)
next
  assume "truthy (attrs r f)"
  with assms show "token fs f (attrs r f) \<in> set (hash_chunks fs r flds)"
    by (auto simp: hash_chunks_def chunks_loop_filter)
next
  assume h: "\<not> truthy (attrs r f) \<and> truthy v"
  let ?F = "hash_field_list (cls r) flds"
  have "weight (chunks_loop fs (attrs r) ?F []) + 2 \<le> weight (chunks_loop fs ((attrs r)(f := v)) ?F [])"
    using weight_falsy_to_truthy [of "attrs r" f v fs ?F] h assms by simp
  then have "length (SyncedModel_hashable_representation fs r flds)
           < length (SyncedModel_hashable_representation fs (r\<lparr>attrs := (attrs r)(f := v)\<rparr>) flds)"
    by (simp add: SyncedModel_hashable_representation_def hash_chunks_def length_join_amp)
  then show "SyncedModel_hashable_representation fs (r\<lparr>attrs := (attrs r)(f := v)\<rparr>) flds
              \<noteq> SyncedModel_hashable_representation fs r flds"
    by auto
qed

theorem falsy_field_excluded_witness:
  "''name'' \<in> set (hash_field_list (cls demo_device) (Some [''signed_version'', ''name'', ''description'', ''public_key'']))
   \<and> \<not> truthy (attrs demo_device ''name'') \<and> truthy (PStr ''x'')
   \<and> hash_chunks (\<lambda>w. []) demo_device (Some [''signed_version'', ''name'', ''description'', ''public_key''])
       = [''id=ab'', ''signed_version=1'', ''public_key=K'']
   \<and> SyncedModel_hashable_representation (\<lambda>w. []) (demo_device\<lparr>attrs := (attrs demo_device)(''name'' := PStr ''x'')\<rparr>)
          (Some [''signed_version'', ''name'', ''description'', ''public_key''])
       \<noteq> SyncedModel_hashable_representation (\<lambda>w. []) demo_device (Some [''signed_version'', ''name'', ''description'', ''public_key''])"
proof -
  have m: "''name'' \<in> set (hash_field_list (cls demo_device) (Some [''signed_version'', ''name'', ''description'', ''public_key'']))"
    by (simp add: hash_field_list_Device)
  have f: "\<not> truthy (attrs demo_device ''name'')" by (simp add: demo_device_def no_attrs_def)
  have c: "hash_chunks (\<lambda>w. []) demo_device (Some [''signed_version'', ''name'', ''description'', ''public_key''])
       = [''id=ab'', ''signed_version=1'', ''public_key=K'']" by code_simp
  show ?thesis
    using falsy_field_excluded [OF m, where v = "PStr ''x''" and fs = "\<lambda>w. []"] m f c by simp
qed

section \<open>Device counters\<close>

lemma find_metadata_map:
  "find (\<lambda>m. md_device m = k) (replace_first (\<lambda>x. md_device x = md_device m) m ms)
   = (if md_device m = k then (if \<exists>x\<in>set ms. md_device x = k then Some m else None)
      else find (\<lambda>m. md_device m = k) ms)"
  by (induction ms) auto

lemma find_snoc:
  "find P (ms @ [m]) = (case find P ms of Some x \<Rightarrow> Some x | None \<Rightarrow> if P m then Some m else None)"
  by (induction ms) auto

lemma find_None_set: "(find P xs = None) = (\<forall>x\<in>set xs. \<not> P x)"
  by (induction xs) auto

lemma get_metadata_save:
  "get_metadata L (metadata_save m w) d =
     (if md_device m = db_prep L (obj_id d) then m else get_metadata L w d)"
proof (cases "\<exists>x \<in> set (metadata w). md_device x = md_device m")
  case True
  then show ?thesis
    by (auto simp: get_metadata_def metadata_save_def find_metadata_map)
next
  case False
  then have "find (\<lambda>x. md_device x = md_device m) (metadata w) = None"
    by (simp add: find_None_set)
  with False show ?thesis
    by (auto simp: get_metadata_def metadata_save_def find_snoc split: option.splits)
qed

lemma md_device_get_metadata: "md_device (get_metadata L w d) = db_prep L (obj_id d)"
  by (auto simp: get_metadata_def new_metadata_def find_Some_iff split: option.splits)

lemma get_metadata_key:
  "db_prep L (obj_id d) = db_prep L (obj_id e) \<Longrightarrow> get_metadata L w d = get_metadata L w e"
  unfolding get_metadata_def by (simp split: option.splits)

lemma set_counter_position_value:
  "counter_position (get_metadata L (set_counter_position L w d n) d) =
     (if truthy (obj_id d) then max (counter_position (get_metadata L w d)) n
      else counter_position (get_metadata L w d))"
  by (simp add: set_counter_position_def Let_def get_metadata_save md_device_get_metadata)

lemma set_counter_position_mono:
  "counter_position (get_metadata L w e) \<le> counter_position (get_metadata L (set_counter_position L w d n) e)"
  by (auto simp: set_counter_position_def Let_def get_metadata_save md_device_get_metadata
      dest: get_metadata_key [where w = w])

lemma increment_mono:
  "counter_position (get_metadata L w e) \<le> counter_position (get_metadata L (snd (increment_and_get_counter L w d)) e)"
  by (auto simp: increment_and_get_counter_def Let_def get_metadata_save md_device_get_metadata
      dest: get_metadata_key [where w = w])

lemma counter_step_mono:
  "counter_position (get_metadata L w e) \<le> counter_position (get_metadata L (counter_step L w op) e)"
  by (cases op) (simp_all add: set_counter_position_mono increment_mono)

lemma fold_counter_step_mono:
  "counter_position (get_metadata L w e) \<le> counter_position (get_metadata L (fold (\<lambda>op w. counter_step L w op) ops w) e)"
proof (induction ops arbitrary: w)
  case Nil show ?case by simp
next
  case (Cons op ops)
  show ?case using Cons [of "counter_step L w op"] counter_step_mono [of L w e op] by simp
qed

lemma increment_value:
  "truthy (obj_id d) \<Longrightarrow> increment_and_get_counter L w d = (c, w') \<Longrightarrow>
     c = counter_position (get_metadata L w d) + 1 \<and> counter_position (get_metadata L w' d) = c"
  by (auto simp: increment_and_get_counter_def Let_def get_metadata_save md_device_get_metadata)

lemma increment_times_value:
  "truthy (obj_id d) \<Longrightarrow>
     fst (increment_times L n w d) =
       [counter_position (get_metadata L w d) + 1 .. counter_position (get_metadata L w d) + int n]
   \<and> counter_position (get_metadata L (snd (increment_times L n w d)) d) = counter_position (get_metadata L w d) + int n"
proof (induction n arbitrary: w)
  case 0 show ?case by simp
next
  case (Suc n)
  let ?k = "counter_position (get_metadata L w d)"
  obtain c w' where s: "increment_and_get_counter L w d = (c, w')" by (cases "increment_and_get_counter L w d")
  from increment_value [OF Suc.prems s] have c: "c = ?k + 1"
    and c': "counter_position (get_metadata L w' d) = c" by simp_all
  obtain cs w'' where t: "increment_times L n w' d = (cs, w'')" by (cases "increment_times L n w' d")
  from Suc.IH [OF Suc.prems, of w'] t c'
  have cs: "cs = [c + 1 .. c + int n]" and w'': "counter_position (get_metadata L w'' d) = c + int n"
    by simp_all
  have "[?k + 1 .. ?k + int (Suc n)] = (?k + 1) # [?k + 1 + 1 .. ?k + int (Suc n)]"
    by (rule upto_rec1) simp
  also have "\<dots> = c # cs"
  proof -
    have "?k + 1 + 1 = c + 1" "?k + int (Suc n) = c + int n" unfolding c by simp_all
    then show ?thesis unfolding cs using c by (simp only:)
  qed
  finally have l: "[?k + 1 .. ?k + int (Suc n)] = c # cs" .
  have "fst (increment_times L (Suc n) w d) = c # cs" using s t by simp
  moreover have "snd (increment_times L (Suc n) w d) = w''" using s t by simp
  moreover have "c + int n = ?k + int (Suc n)" unfolding c by simp
  ultimately show ?case using l w'' by simp
qed

lemma truthy_demo_device: "truthy (obj_id demo_device)"
  by (simp add: demo_device_def obj_id_def no_attrs_def)

lemma falsy_unsaved_device: "\<not> truthy (obj_id unsaved_device)"
  by (simp add: unsaved_device_def obj_id_def no_attrs_def)

lemma counter_position_empty_world: "counter_position (get_metadata L empty_world d) = 0"
  by (simp add: get_metadata_def empty_world_def new_metadata_def)

text \<open>
  C6, as stated: for every device, \<^verbatim>\<open>set_counter_position(n)\<close> leaves the counter position
  at the maximum of its previous value and \<open>n\<close>. It fails for a device whose id is empty
  (an instance that is not saved yet): the method returns at once and the position stays 0.
\<close>

theorem set_counter_position_max_counterexample:
  "counter_position (get_metadata stub_lib (set_counter_position stub_lib empty_world unsaved_device 5) unsaved_device)
     \<noteq> max (counter_position (get_metadata stub_lib empty_world unsaved_device)) 5"
  by (simp add: set_counter_position_def falsy_unsaved_device counter_position_empty_world)

text \<open>
  C6, amended: for every device whose id is not empty and every \<open>n\<close>,
  \<^verbatim>\<open>set_counter_position(n)\<close> leaves the device's counter position at the maximum of its
  previous value and \<open>n\<close>; for a device whose id is empty it changes nothing; and the
  counter position of every device is non-decreasing across every sequence of
  \<^verbatim>\<open>set_counter_position\<close> and \<^verbatim>\<open>increment_and_get_counter\<close> calls.
\<close>

theorem set_counter_position_max:
  "(truthy (obj_id d) \<longrightarrow>
      counter_position (get_metadata L (set_counter_position L w d n) d)
        = max (counter_position (get_metadata L w d)) n)
   \<and> (\<not> truthy (obj_id d) \<longrightarrow> set_counter_position L w d n = w)
   \<and> counter_position (get_metadata L w e)
       \<le> counter_position (get_metadata L (fold (\<lambda>op w. counter_step L w op) ops w) e)"
  by (simp add: set_counter_position_value fold_counter_step_mono)
     (simp add: set_counter_position_def)

theorem set_counter_position_max_witness:
  "truthy (obj_id demo_device)
   \<and> counter_position (get_metadata stub_lib (set_counter_position stub_lib empty_world demo_device 5) demo_device) = 5
   \<and> \<not> truthy (obj_id unsaved_device)
   \<and> set_counter_position stub_lib empty_world unsaved_device 5 = empty_world"
  using set_counter_position_max [of demo_device stub_lib empty_world 5]
    set_counter_position_max [of unsaved_device stub_lib empty_world 5]
  by (simp add: truthy_demo_device falsy_unsaved_device counter_position_empty_world)

text \<open>
  C7: \<^verbatim>\<open>increment_and_get_counter\<close> returns 0 and changes nothing when the device's id
  is empty (the own device is not saved yet); otherwise it adds one to the stored counter
  position and returns the new value, so \<open>n\<close> successive calls starting from counter \<open>k\<close>
  return \<open>k+1, ..., k+n\<close> and leave the counter at \<open>k+n\<close>.
\<close>

theorem increment_and_get_counter_sequence:
  "(\<not> truthy (obj_id d) \<longrightarrow> increment_and_get_counter L w d = (0, w))
   \<and> (truthy (obj_id d) \<longrightarrow>
        fst (increment_and_get_counter L w d) = counter_position (get_metadata L w d) + 1
      \<and> counter_position (get_metadata L (snd (increment_and_get_counter L w d)) d)
          = counter_position (get_metadata L w d) + 1
      \<and> fst (increment_times L n w d)
          = [counter_position (get_metadata L w d) + 1 .. counter_position (get_metadata L w d) + int n]
      \<and> counter_position (get_metadata L (snd (increment_times L n w d)) d)
          = counter_position (get_metadata L w d) + int n)"
proof (intro conjI impI)
  assume "\<not> truthy (obj_id d)"
  then show "increment_and_get_counter L w d = (0, w)"
    by (simp add: increment_and_get_counter_def)
next
  assume t: "truthy (obj_id d)"
  obtain c w' where s: "increment_and_get_counter L w d = (c, w')"
    by (cases "increment_and_get_counter L w d")
  from increment_value [OF t s] s
  show "fst (increment_and_get_counter L w d) = counter_position (get_metadata L w d) + 1"
    and "counter_position (get_metadata L (snd (increment_and_get_counter L w d)) d)
          = counter_position (get_metadata L w d) + 1"
    by simp_all
  from increment_times_value [OF t]
  show "fst (increment_times L n w d)
          = [counter_position (get_metadata L w d) + 1 .. counter_position (get_metadata L w d) + int n]"
    and "counter_position (get_metadata L (snd (increment_times L n w d)) d)
          = counter_position (get_metadata L w d) + int n"
    by simp_all
qed

theorem increment_and_get_counter_sequence_witness:
  "\<not> truthy (obj_id unsaved_device)
   \<and> increment_and_get_counter stub_lib empty_world unsaved_device = (0, empty_world)
   \<and> truthy (obj_id demo_device)
   \<and> fst (increment_times stub_lib 3 empty_world demo_device) = [1, 2, 3]"
proof -
  have "[0 + 1 .. 0 + int 3] = [1, 2, 3]" by code_simp
  then show ?thesis
    using increment_and_get_counter_sequence [of unsaved_device stub_lib empty_world 3]
      increment_and_get_counter_sequence [of demo_device stub_lib empty_world 3]
    by (simp add: truthy_demo_device falsy_unsaved_device counter_position_empty_world)
qed

section \<open>Identifiers of devices\<close>

lemma length_hex_digits: "length (hex_digits k n) = k"
  by (induction k arbitrary: n) simp_all

lemma length_uuid_hex: "length (uuid_hex u) = 32"
  by (simp add: uuid_hex_def length_hex_digits)

text \<open>
  C10: \<^verbatim>\<open>Device.get_uuid\<close> is deterministic only with a public key. With a non-empty
  public key it returns, whatever the state, the 32-character hex string of
  \<^verbatim>\<open>uuid5(ROOT_UUID_NAMESPACE, str(public_key))\<close>. With an empty public key two calls
  return the next two draws of the random source as UUID objects, not strings; they differ
  from each other whenever the two draws differ.
\<close>

theorem Device_get_uuid_cases:
  "(truthy (attrs d ''public_key'') \<longrightarrow>
      Device_get_uuid L w d =
        (PStr (uuid_hex (uuid5 L (ROOT_UUID_NAMESPACE L) (py_str (float_str L) (attrs d ''public_key'')))), w)
    \<and> length (uuid_hex (uuid5 L (ROOT_UUID_NAMESPACE L) (py_str (float_str L) (attrs d ''public_key'')))) = 32)
   \<and> (\<not> truthy (attrs d ''public_key'') \<longrightarrow>
        (let (v1, w1) = Device_get_uuid L w d; (v2, w2) = Device_get_uuid L w1 d
         in v1 = PUuid (uuid4 L (draws w)) \<and> v2 = PUuid (uuid4 L (Suc (draws w)))
          \<and> (\<forall>s. v1 \<noteq> PStr s \<and> v2 \<noteq> PStr s)
          \<and> (uuid4 L (draws w) \<noteq> uuid4 L (Suc (draws w)) \<longrightarrow> v1 \<noteq> v2)))"
  by (simp add: Device_get_uuid_def length_uuid_hex)

theorem Device_get_uuid_cases_witness:
  "truthy (attrs demo_device ''public_key'')
   \<and> fst (Device_get_uuid stub_lib empty_world demo_device)
       = PStr (uuid_hex (uuid5 stub_lib (ROOT_UUID_NAMESPACE stub_lib) ''K''))
   \<and> \<not> truthy (attrs unsaved_device ''public_key'')
   \<and> uuid4 stub_lib (draws empty_world) \<noteq> uuid4 stub_lib (Suc (draws empty_world))
   \<and> fst (Device_get_uuid stub_lib empty_world unsaved_device) = PUuid 0
   \<and> fst (Device_get_uuid stub_lib (snd (Device_get_uuid stub_lib empty_world unsaved_device)) unsaved_device) = PUuid 1"
proof -
  have a: "truthy (attrs demo_device ''public_key'')" "attrs demo_device ''public_key'' = PStr ''K''"
    by (simp_all add: demo_device_def no_attrs_def)
  have b: "\<not> truthy (attrs unsaved_device ''public_key'')"
    by (simp add: unsaved_device_def no_attrs_def)
  have c: "uuid4 stub_lib (draws empty_world) = 0" "uuid4 stub_lib (Suc (draws empty_world)) = 1"
    by (simp_all add: stub_lib_def empty_world_def)
  show ?thesis
    using Device_get_uuid_cases [of demo_device stub_lib empty_world]
      Device_get_uuid_cases [of unsaved_device stub_lib empty_world] a b c
    by (simp add: split_beta Let_def)
qed

section \<open>Identifiers in hexadecimal\<close>

lemma hex_value_hex_char: "d < 16 \<Longrightarrow> hex_value (hex_char d) = Some d"
  by (auto simp: hex_value_def hex_char_def Let_def)

lemma parse_hex_append: "parse_hex (xs @ ys) acc = (case parse_hex xs acc of None \<Rightarrow> None | Some a \<Rightarrow> parse_hex ys a)"
  by (induction xs arbitrary: acc) (auto split: option.splits)

lemma parse_hex_digits: "parse_hex (hex_digits k n) acc = Some (acc * 16 ^ k + n mod 16 ^ k)"
proof (induction k arbitrary: n)
  case 0 show ?case by simp
next
  case (Suc k)
  have "n div 16 mod 16 ^ k * 16 + n mod 16 = n mod (16 * 16 ^ k)"
    by (metis add.commute mod_mult2_eq mult.commute)
  then show ?case
    by (simp add: parse_hex_append Suc hex_value_hex_char algebra_simps)
qed

lemma stub_UUID_hex: "uuid_UUID stub_lib (uuid_hex u) = Some u"
proof -
  have "unat u < 2 ^ 128" using unsigned_less [of u] by simp
  then have "unat u mod 16 ^ 32 = unat u" by simp
  then show ?thesis
    by (simp add: stub_lib_def uuid_hex_def parse_hex_digits length_hex_digits)
qed

section \<open>Verification of signatures\<close>

text \<open>
  C2, as stated: any exception raised during verification yields false and never reaches
  the caller. It fails for a record whose signer is not in the store: reading
  \<^verbatim>\<open>self.signed_by\<close> raises \<^verbatim>\<open>DoesNotExist\<close> before the \<^verbatim>\<open>try\<close>.
\<close>

theorem verify_exception_counterexample:
  "verify stub_lib empty_world orphan_record = Inl DoesNotExist"
  by (simp add: verify_def SyncedModel_verify_def orphan_record_def signed_by_def
      get_object_or_None_def empty_world_def no_attrs_def)

lemma getattr_field_value: "getattr_field w r f = Inr v \<Longrightarrow> v = attrs r f"
  by (auto simp: getattr_field_def split: option.splits prod.splits pyval.splits if_splits)

lemma chunks_loop_db_value:
  "chunks_loop_db L w r flds acc = Inr cs \<Longrightarrow> cs = chunks_loop (float_str L) (attrs r) flds acc"
proof (induction flds arbitrary: acc)
  case Nil
  then show ?case by simp
next
  case (Cons f flds)
  from Cons.prems obtain v where v: "getattr_field w r f = Inr v"
    by (cases "getattr_field w r f") simp_all
  then have a: "v = attrs r f" by (rule getattr_field_value)
  show ?case
  proof (cases "truthy v")
    case True
    with Cons.prems v have "chunks_loop_db L w r flds (acc @ [token (float_str L) f v]) = Inr cs" by simp
    from Cons.IH [OF this] True a show ?thesis by (simp add: Let_def)
  next
    case False
    with Cons.prems v have "chunks_loop_db L w r flds acc = Inr cs" by simp
    from Cons.IH [OF this] False a show ?thesis by (simp add: Let_def)
  qed
qed

lemma chunks_loop_db_total:
  "\<forall>f \<in> set flds. getattr_field w r f = Inr (attrs r f) \<Longrightarrow>
     chunks_loop_db L w r flds acc = Inr (chunks_loop (float_str L) (attrs r) flds acc)"
  by (induction flds arbitrary: acc) (simp_all add: Let_def)

lemma chunks_loop_db_raises:
  "f \<in> set flds \<Longrightarrow> getattr_field w r f = Inl e \<Longrightarrow> \<exists>e'. chunks_loop_db L w r flds acc = Inl e'"
proof (induction flds arbitrary: acc)
  case Nil
  then show ?case by simp
next
  case (Cons g flds)
  show ?case
  proof (cases "getattr_field w r g")
    case (Inl e')
    then show ?thesis by simp
  next
    case (Inr v)
    with Cons.prems have "f \<in> set flds" by auto
    from Cons.IH [OF this Cons.prems(2)] Inr show ?thesis by simp
  qed
qed

lemma hashable_db_value:
  "hashable_representation_db L w r = Inr h \<Longrightarrow> h = hashable_representation (float_str L) r"
  by (auto simp: hashable_representation_db_def hashable_representation_def
      Device_hashable_representation_def SyncedModel_hashable_representation_def hash_chunks_def
      split: sum.splits if_splits dest: chunks_loop_db_value)

lemma hashable_db_total:
  assumes "\<forall>f \<in> set (hash_field_list (cls r)
              (if cls r = Device then Some [''signed_version'', ''name'', ''description'', ''public_key'']
               else None)). getattr_field w r f = Inr (attrs r f)"
  shows "hashable_representation_db L w r = Inr (hashable_representation (float_str L) r)"
  using chunks_loop_db_total [OF assms, of L "[]"]
  by (simp add: hashable_representation_db_def hashable_representation_def
      Device_hashable_representation_def SyncedModel_hashable_representation_def hash_chunks_def)

lemma hashable_db_raises:
  assumes "f \<in> set (hash_field_list (cls r)
              (if cls r = Device then Some [''signed_version'', ''name'', ''description'', ''public_key'']
               else None))"
    and "getattr_field w r f = Inl e"
  shows "\<exists>e'. hashable_representation_db L w r = Inl e'"
  using chunks_loop_db_raises [OF assms, of L "[]"]
  by (auto simp: hashable_representation_db_def)

lemma getattr_field_Device:
  "cls r = Device \<Longrightarrow> f \<noteq> ''zone_fallback'' \<Longrightarrow> getattr_field w r f = Inr (attrs r f)"
  by (simp add: getattr_field_def fk_target_def)

lemma hashable_db_Device:
  "cls r = Device \<Longrightarrow> hashable_representation_db L w r = Inr (hashable_representation (float_str L) r)"
  by (rule hashable_db_total) (simp add: hash_field_list_Device getattr_field_Device)

lemma getattr_field_Facility:
  "cls r = Facility \<Longrightarrow> attrs r ''zone_fallback'' = PNone \<Longrightarrow> getattr_field w r f = Inr (attrs r f)"
  by (simp add: getattr_field_def fk_target_def)

lemma hashable_db_Facility:
  "cls r = Facility \<Longrightarrow> attrs r ''zone_fallback'' = PNone \<Longrightarrow>
     hashable_representation_db L w r = Inr (hashable_representation (float_str L) r)"
  by (rule hashable_db_total) (simp add: getattr_field_Facility)

text \<open>
  C2, amended: for every record of a class that uses \<^verbatim>\<open>SyncedModel.verify\<close> (all but
  Device), \<^verbatim>\<open>verify()\<close> returns false when \<^verbatim>\<open>signed_by\<close> is absent; returns false
  when the class requires a trusted signature and the signer's metadata is not trusted;
  otherwise returns the result of \<^verbatim>\<open>crypto.verify\<close> on the canonical string, the decoded
  signature and the signer's public key; any exception raised inside the \<^verbatim>\<open>try\<close>, that
  is while the canonical string is computed (a hashed field whose reading raises), by the
  decoding or by \<^verbatim>\<open>crypto.verify\<close>, yields false. An exception raised before the
  \<^verbatim>\<open>try\<close> (the signer is missing from the store, its public key cannot be deserialized)
  reaches the caller.
\<close>

theorem SyncedModel_verify_cases:
  assumes "cls r \<noteq> Device"
  shows "(\<not> truthy (attrs r ''signed_by_id'') \<longrightarrow> verify L w r = Inr False)
   \<and> (truthy (attrs r ''signed_by_id'') \<and> signed_by L w r = None \<longrightarrow> verify L w r = Inl DoesNotExist)
   \<and> (truthy (attrs r ''signed_by_id'') \<and> signed_by L w r = Some signer \<longrightarrow>
        (requires_trusted_signature (cls r) \<and> \<not> is_trusted (get_metadata L w signer) \<longrightarrow>
           verify L w r = Inr False)
      \<and> (\<not> (requires_trusted_signature (cls r) \<and> \<not> is_trusted (get_metadata L w signer)) \<longrightarrow>
           (get_public_key L signer = None \<longrightarrow> verify L w r = Inl CryptoError)
         \<and> (get_public_key L signer = Some key \<longrightarrow>
              (f \<in> set (hash_field_list (cls r) None) \<and> getattr_field w r f = Inl e \<longrightarrow>
                 verify L w r = Inr False)
            \<and> (hashable_representation_db L w r = Inl e \<longrightarrow> verify L w r = Inr False)
            \<and> (hashable_representation_db L w r = Inr h \<longrightarrow>
                 h = hashable_representation (float_str L) r
               \<and> (attrs r ''signature'' = PStr s \<and> crypto_decode_base64 L s = Some sig
                    \<and> crypto_verify L h sig key = Some b \<longrightarrow>
                    verify L w r = Inr b)
               \<and> (attrs r ''signature'' = PStr s \<and>
                    (crypto_decode_base64 L s = None
                     \<or> crypto_decode_base64 L s = Some sig \<and> crypto_verify L h sig key = None) \<longrightarrow>
                    verify L w r = Inr False)))))"
proof -
  have raises: "verify L w r = Inr False"
    if "truthy (attrs r ''signed_by_id'')" "signed_by L w r = Some signer"
      "\<not> (requires_trusted_signature (cls r) \<and> \<not> is_trusted (get_metadata L w signer))"
      "get_public_key L signer = Some key"
      "f \<in> set (hash_field_list (cls r) None)" "getattr_field w r f = Inl e"
  proof -
    from hashable_db_raises [of f r w e L] that(5,6) assms
    obtain e' where "hashable_representation_db L w r = Inl e'" by auto
    with that assms show ?thesis
      by (auto simp: verify_def SyncedModel_verify_def try_crypto_verify_def)
  qed
  have canonical: "h = hashable_representation (float_str L) r" if "hashable_representation_db L w r = Inr h"
    using that by (rule hashable_db_value)
  show ?thesis
    using assms raises canonical
    by (auto simp: verify_def SyncedModel_verify_def try_crypto_verify_def)
qed

section \<open>Saving records\<close>

lemma get_own_device_registered:
  "filter is_own_device (metadata w) \<noteq> [] \<Longrightarrow> snd (get_own_device L w) = w"
  by (auto simp: get_own_device_def split: list.splits option.splits)

lemma own_keys_replace_first:
  "find (\<lambda>x. md_device x = k) ms = Some m \<Longrightarrow> md_device m' = k \<Longrightarrow> is_own_device m' = is_own_device m \<Longrightarrow>
   map md_device (filter is_own_device (replace_first (\<lambda>x. md_device x = k) m' ms))
     = map md_device (filter is_own_device ms)"
  by (induction ms) (auto split: if_splits)

lemma own_keys_metadata_save:
  assumes "m' = (get_metadata L w d)\<lparr>counter_position := c\<rparr>"
  shows "map md_device (filter is_own_device (metadata (metadata_save m' w)))
       = map md_device (filter is_own_device (metadata w))"
proof (cases "find (\<lambda>x. md_device x = db_prep L (obj_id d)) (metadata w)")
  case None
  then have "get_metadata L w d = new_metadata (db_prep L (obj_id d))"
    by (simp add: get_metadata_def)
  moreover from None have "\<not> (\<exists>x \<in> set (metadata w). md_device x = db_prep L (obj_id d))"
    by (simp add: find_None_set)
  ultimately show ?thesis using assms
    by (simp add: metadata_save_def new_metadata_def)
next
  case (Some m)
  then have g: "get_metadata L w d = m" by (simp add: get_metadata_def)
  from Some have k: "md_device m = db_prep L (obj_id d)" "m \<in> set (metadata w)"
    by (auto simp: find_Some_iff)
  have "map md_device (filter is_own_device (replace_first (\<lambda>x. md_device x = db_prep L (obj_id d)) m' (metadata w)))
     = map md_device (filter is_own_device (metadata w))"
    by (rule own_keys_replace_first [OF Some]) (simp_all add: assms g k)
  then show ?thesis using k assms g
    by (auto simp: metadata_save_def)
qed

lemma own_keys_increment:
  "map md_device (filter is_own_device (metadata (snd (increment_and_get_counter L w d))))
     = map md_device (filter is_own_device (metadata w))"
  by (simp add: increment_and_get_counter_def Let_def own_keys_metadata_save)

lemma rows_metadata_save: "rows (metadata_save m w) = rows w"
  by (simp add: metadata_save_def)

lemma rows_increment: "rows (snd (increment_and_get_counter L w d)) = rows w"
  by (simp add: increment_and_get_counter_def Let_def rows_metadata_save)

lemma get_own_device_keys:
  assumes "filter is_own_device (metadata w) \<noteq> []"
    and "map md_device (filter is_own_device (metadata w')) = map md_device (filter is_own_device (metadata w))"
    and "rows w' = rows w"
  shows "get_own_device L w' = (fst (get_own_device L w), w')"
proof -
  obtain m ms where a: "filter is_own_device (metadata w) = m # ms"
    using assms(1) by (cases "filter is_own_device (metadata w)") auto
  with assms(2) obtain m' ms' where b: "filter is_own_device (metadata w') = m' # ms'" "md_device m' = md_device m"
    by (cases "filter is_own_device (metadata w')") auto
  show ?thesis
    by (simp add: get_own_device_def a b get_object_or_None_def assms(3) split: option.splits)
qed

lemma local_save_id:
  assumes reg: "filter is_own_device (metadata w) \<noteq> []"
    and own: "fst (get_own_device L w) = Inr (Some own)"
    and tid: "truthy (obj_id own)"
    and cl: "cls r \<noteq> Device"
    and emp: "\<not> truthy (obj_id r)"
    and s: "save L w r OwnNone False = (Inr r', w')"
  shows "\<exists>s ns. obj_id own = PStr s \<and> uuid_UUID L s = Some ns
      \<and> obj_id r' = PStr (uuid_hex (uuid5 L ns (py_str (float_str L) (attrs r' ''counter''))))
      \<and> attrs r' ''signed_by_id'' = PStr s
      \<and> attrs r' ''counter'' = PInt (counter_position (get_metadata L w own) + 1)"
proof -
  from get_own_device_registered [OF reg, of L] own
  have g: "get_own_device L w = (Inr (Some own), w)"
    by (cases "get_own_device L w") simp
  obtain c w1 where inc: "increment_and_get_counter L w own = (c, w1)"
    by (cases "increment_and_get_counter L w own")
  from increment_value [OF tid inc] have c: "c = counter_position (get_metadata L w own) + 1" by simp
  let ?r1 = "r\<lparr>attrs := (attrs r)(''counter'' := PInt c)\<rparr>"
  have e1: "\<not> truthy (obj_id ?r1)" using emp by (simp add: obj_id_def)
  have g1: "get_own_device L w1 = (Inr (Some own), w1)"
    using get_own_device_keys [OF reg, of w1 L] own_keys_increment [of L w own] rows_increment [of L w own] inc g
    by simp
  from s cl g inc e1
  have s1: "(case get_uuid L w1 ?r1 of
               (Inl e, w2) \<Rightarrow> (Inl e, w2)
             | (Inr u, w2) \<Rightarrow>
                 (let r2 = ?r1\<lparr>attrs := (attrs ?r1)(''id'' := u)\<rparr>
                  in sign_and_save L (Model_save L r2 w2) r2 (OwnObj own))) = (Inr r', w')"
    by (simp add: save_def SyncedModel_save_def save_resolved_def Let_def)
  have gu: "get_uuid L w1 ?r1 = SyncedModel_get_uuid L w1 ?r1" using cl by (simp add: get_uuid_def)
  from s1 obtain u w2 where u: "SyncedModel_get_uuid L w1 ?r1 = (Inr u, w2)"
    unfolding gu by (auto split: prod.splits sum.splits)
  from u g1 tid obtain sid ns where sid: "obj_id own = PStr sid" "uuid_UUID L sid = Some ns"
    and uv: "u = PStr (uuid_hex (uuid5 L ns (py_str (float_str L) (PInt c))))"
    by (auto simp: SyncedModel_get_uuid_def split: pyval.splits option.splits)
  let ?r2 = "?r1\<lparr>attrs := (attrs ?r1)(''id'' := u)\<rparr>"
  from s1 u have "sign_and_save L (Model_save L ?r2 w2) ?r2 (OwnObj own) = (Inr r', w')"
    unfolding gu by (simp add: Let_def)
  then have sg: "sign L (Model_save L ?r2 w2) ?r2 own = Inr r'"
    by (auto simp: sign_and_save_def split: sum.splits)
  then have "attrs r' ''id'' = u \<and> attrs r' ''counter'' = PInt c \<and> attrs r' ''signed_by_id'' = obj_id own"
    by (auto simp: sign_def Let_def split: option.splits sum.splits)
  with sid uv c show ?thesis by (simp add: obj_id_def)
qed

lemma facility_rec_hash:
  "hashable_representation (float_str stub_lib) facility_rec = ''counter=1&id=f1&name=School&signed_version=1''"
  by code_simp

lemma facility_rec_hash_db:
  "hashable_representation_db stub_lib demo_world facility_rec
     = Inr ''counter=1&id=f1&name=School&signed_version=1''"
  using hashable_db_Facility [of facility_rec stub_lib demo_world] facility_rec_hash
  by (simp add: facility_rec_def no_attrs_def)

lemma signed_by_facility_rec: "signed_by stub_lib demo_world facility_rec = Some own_dev"
  by (simp add: signed_by_def get_object_or_None_def demo_world_def facility_rec_def own_dev_def obj_id_def no_attrs_def)

lemma verify_facility_rec: "verify stub_lib demo_world facility_rec = Inr True"
proof -
  have k: "get_public_key stub_lib own_dev = Some ''K''"
    by (simp add: get_public_key_def own_dev_def stub_lib_def no_attrs_def)
  have s: "attrs facility_rec ''signature'' = PStr ''K:counter=1&id=f1&name=School&signed_version=1''"
    "attrs facility_rec ''signed_by_id'' = PStr own_id" "cls facility_rec = Facility"
    by (simp_all add: facility_rec_def no_attrs_def)
  have d: "crypto_decode_base64 stub_lib = Some"
    "crypto_verify stub_lib = (\<lambda>msg sig key. Some (sig = key @ '':'' @ msg))"
    by (simp_all add: stub_lib_def)
  show ?thesis
    by (simp add: verify_def SyncedModel_verify_def signed_by_facility_rec k s d
        try_crypto_verify_def facility_rec_hash_db own_id_def)
qed

lemma save_imported_eq: "save L w r own True = SyncedModel_save L w r own True"
  by (simp add: save_def Device_save_def split: prod.splits sum.splits)

text \<open>
  C4: an imported save, once the own device is resolved (store \<open>w1\<close>, which is \<open>w\<close>
  itself when the own device is registered): without \<^verbatim>\<open>signed_by\<close>, or when
  \<^verbatim>\<open>verify()\<close> returns false, it raises a validation error and leaves the store as it
  was, the record not committed; when it succeeds, the record verified, it was committed,
  and the store is the one \<^verbatim>\<open>set_counter_position\<close> gives for the signer and the record's
  counter, so the signer's counter position is the maximum of its old value and the counter.
\<close>

theorem imported_save:
  assumes "get_own_device L w = (Inr (Some own), w1)"
  shows "(\<not> truthy (attrs r ''signed_by_id'') \<longrightarrow>
            save L w r OwnNone True = (Inl (ValidationError ''Imported models must be signed.''), w1))
   \<and> (truthy (attrs r ''signed_by_id'') \<and> verify L w1 r = Inr False \<longrightarrow>
            save L w r OwnNone True = (Inl (ValidationError signature_mismatch), w1))
   \<and> (filter is_own_device (metadata w) \<noteq> [] \<longrightarrow> w1 = w)
   \<and> (save L w r OwnNone True = (Inr r', w') \<longrightarrow>
        r' = r \<and> verify L w1 r = Inr True
      \<and> (\<exists>signer. signed_by L (Model_save L r w1) r = Some signer
          \<and> (\<forall>n. attrs r ''counter'' = PInt n \<longrightarrow>
                w' = set_counter_position L (Model_save L r w1) signer n
              \<and> (truthy (obj_id signer) \<longrightarrow>
                   counter_position (get_metadata L w' signer)
                     = max (counter_position (get_metadata L (Model_save L r w1) signer)) n))))"
proof (intro conjI impI)
  assume "\<not> truthy (attrs r ''signed_by_id'')"
  then show "save L w r OwnNone True = (Inl (ValidationError ''Imported models must be signed.''), w1)"
    using assms by (simp add: save_imported_eq SyncedModel_save_def save_resolved_def)
next
  assume "truthy (attrs r ''signed_by_id'') \<and> verify L w1 r = Inr False"
  then show "save L w r OwnNone True = (Inl (ValidationError signature_mismatch), w1)"
    using assms by (simp add: save_imported_eq SyncedModel_save_def save_resolved_def)
next
  assume "filter is_own_device (metadata w) \<noteq> []"
  from get_own_device_registered [OF this, of L] assms show "w1 = w" by simp
next
  assume s: "save L w r OwnNone True = (Inr r', w')"
  then have t: "truthy (attrs r ''signed_by_id'')"
    using assms by (auto simp: save_imported_eq SyncedModel_save_def save_resolved_def split: if_splits)
  from s t assms have v: "verify L w1 r = Inr True"
    by (auto simp: save_imported_eq SyncedModel_save_def save_resolved_def split: if_splits sum.splits)
  from s t v assms have rc: "record_counter_position L (Model_save L r w1) r = (Inr r', w')"
    by (simp add: save_imported_eq SyncedModel_save_def save_resolved_def)
  then obtain signer where sg: "signed_by L (Model_save L r w1) r = Some signer"
    by (auto simp: record_counter_position_def split: option.splits)
  from rc sg show "r' = r"
    by (auto simp: record_counter_position_def split: pyval.splits)
  from v show "verify L w1 r = Inr True" .
  have "\<forall>n. attrs r ''counter'' = PInt n \<longrightarrow>
                w' = set_counter_position L (Model_save L r w1) signer n
              \<and> (truthy (obj_id signer) \<longrightarrow>
                   counter_position (get_metadata L w' signer)
                     = max (counter_position (get_metadata L (Model_save L r w1) signer)) n)"
    using rc sg by (auto simp: record_counter_position_def set_counter_position_value)
  with sg show "\<exists>signer. signed_by L (Model_save L r w1) r = Some signer
          \<and> (\<forall>n. attrs r ''counter'' = PInt n \<longrightarrow>
                w' = set_counter_position L (Model_save L r w1) signer n
              \<and> (truthy (obj_id signer) \<longrightarrow>
                   counter_position (get_metadata L w' signer)
                     = max (counter_position (get_metadata L (Model_save L r w1) signer)) n))"
    by blast
qed

section \<open>Saving on concrete stores\<close>

lemma get_own_device_demo: "get_own_device stub_lib demo_world = (Inr (Some own_dev), demo_world)"
  by (simp add: get_own_device_def demo_world_def get_object_or_None_def own_dev_def obj_id_def no_attrs_def)

lemma UUID_own_id: "uuid_UUID stub_lib own_id = Some 1"
  by (simp add: stub_lib_def own_id_def hex_value_def)

lemma truthy_own_dev: "truthy (obj_id own_dev)" "obj_id own_dev = PStr own_id"
  by (simp_all add: own_dev_def obj_id_def no_attrs_def own_id_def)

lemma counter_demo_world: "counter_position (get_metadata stub_lib demo_world own_dev) = 0"
  by (simp add: get_metadata_def demo_world_def truthy_own_dev)

lemma increment_demo:
  "increment_and_get_counter stub_lib demo_world own_dev =
     (1, demo_world\<lparr>metadata := [\<lparr>md_device = PStr own_id, is_trusted = False, is_own_device = True, counter_position = 1\<rparr>]\<rparr>)"
  by (simp add: increment_and_get_counter_def get_metadata_def demo_world_def truthy_own_dev metadata_save_def Let_def own_id_def)

lemma get_own_device_demo1:
  "get_own_device stub_lib (demo_world\<lparr>metadata := [\<lparr>md_device = PStr own_id, is_trusted = False, is_own_device = True, counter_position = 1\<rparr>]\<rparr>)
    = (Inr (Some own_dev), demo_world\<lparr>metadata := [\<lparr>md_device = PStr own_id, is_trusted = False, is_own_device = True, counter_position = 1\<rparr>]\<rparr>)"
  by (simp add: get_own_device_def demo_world_def get_object_or_None_def own_dev_def obj_id_def no_attrs_def)

lemma crypto_sign_stub: "crypto_sign stub_lib msg = Some (''K:'' @ msg)"
  by (simp add: stub_lib_def)

lemma save_new_facility:
  "\<not> isl (fst (save stub_lib demo_world new_facility OwnNone False))
   \<and> obj_id (projr (fst (save stub_lib demo_world new_facility OwnNone False)))
       = PStr (uuid_hex (uuid5 stub_lib 1 ''1''))
   \<and> attrs (projr (fst (save stub_lib demo_world new_facility OwnNone False))) ''counter'' = PInt 1"
proof -
  have a: "cls new_facility = Facility" "obj_id new_facility = PStr []" "attrs new_facility ''id'' = PStr []"
    by (simp_all add: new_facility_def obj_id_def no_attrs_def)
  have s: "str_int 1 = ''1''"
    by code_simp
  have ne: "own_id \<noteq> []" by (simp add: own_id_def)
  have z: "attrs new_facility ''zone_fallback'' = PNone" by (simp add: new_facility_def no_attrs_def)
  show ?thesis
    by (simp add: save_def SyncedModel_save_def get_own_device_demo save_resolved_def increment_demo a
        obj_id_def get_uuid_def SyncedModel_get_uuid_def get_own_device_demo1 truthy_own_dev [unfolded obj_id_def]
        UUID_own_id s sign_and_save_def sign_def crypto_sign_stub Let_def ne hashable_db_Facility z)
qed

lemma peer_device_attrs: "cls peer_device = Device" "obj_id peer_device = PStr []" "attrs peer_device ''id'' = PStr []"
     "attrs peer_device ''public_key'' = PStr ''P''"
    by (simp_all add: peer_device_def obj_id_def no_attrs_def)

lemma get_uuid_peer_device:
  "get_uuid stub_lib w (peer_device\<lparr>attrs := (attrs peer_device)(''counter'' := PInt 1)\<rparr>)
   = (Inr (PStr (uuid_hex (uuid5 stub_lib (ROOT_UUID_NAMESPACE stub_lib) ''P''))), w)"
  by (simp add: get_uuid_def Device_get_uuid_def peer_device_attrs)

lemma save_resolved_peer_device:
  "\<exists>r' w'. save_resolved stub_lib (get_uuid stub_lib) demo_world peer_device (OwnObj own_dev) False = (Inr r', w')
     \<and> attrs r' ''id'' = PStr (uuid_hex (uuid5 stub_lib (ROOT_UUID_NAMESPACE stub_lib) ''P''))
     \<and> attrs r' ''counter'' = PInt 1 \<and> attrs r' ''signed_by_id'' = PStr own_id"
  by (simp add: save_resolved_def increment_demo get_uuid_peer_device peer_device_attrs obj_id_def
      sign_and_save_def sign_def crypto_sign_stub Let_def truthy_own_dev [unfolded obj_id_def]
      hashable_db_Device)

lemma save_peer_device:
  "\<not> isl (fst (save stub_lib demo_world peer_device OwnNone False))
   \<and> obj_id (projr (fst (save stub_lib demo_world peer_device OwnNone False)))
       = PStr (uuid_hex (uuid5 stub_lib (ROOT_UUID_NAMESPACE stub_lib) ''P''))
   \<and> attrs (projr (fst (save stub_lib demo_world peer_device OwnNone False))) ''counter'' = PInt 1
   \<and> attrs (projr (fst (save stub_lib demo_world peer_device OwnNone False))) ''signed_by_id'' = PStr own_id"
proof -
  from save_resolved_peer_device obtain r' w' where
    s: "save_resolved stub_lib (get_uuid stub_lib) demo_world peer_device (OwnObj own_dev) False = (Inr r', w')"
    and r: "attrs r' ''id'' = PStr (uuid_hex (uuid5 stub_lib (ROOT_UUID_NAMESPACE stub_lib) ''P''))"
      "attrs r' ''counter'' = PInt 1" "attrs r' ''signed_by_id'' = PStr own_id"
    by blast
  have "SyncedModel_save stub_lib demo_world peer_device OwnNone False = (Inr r', w')"
    by (simp add: SyncedModel_save_def get_own_device_demo s)
  then have "save stub_lib demo_world peer_device OwnNone False = (Inr r', w')"
    by (simp add: save_def Device_save_def peer_device_attrs)
  with r show ?thesis by (simp add: obj_id_def)
qed

lemma uuid_hex_inj: "uuid_hex u = uuid_hex v \<Longrightarrow> u = v"
  by (metis option.inject stub_UUID_hex)

lemma stub_uuid5_differ: "uuid5 stub_lib (ROOT_UUID_NAMESPACE stub_lib) ''P'' \<noteq> uuid5 stub_lib 1 ''1''"
  by (simp add: stub_lib_def ROOT_UUID_NAMESPACE_def NAMESPACE_URL_def)

lemma save_unsigned: "save stub_lib demo_world unsigned_rec OwnNone True
    = (Inl (ValidationError ''Imported models must be signed.''), demo_world)"
  by (simp add: save_def SyncedModel_save_def get_own_device_demo save_resolved_def unsigned_rec_def no_attrs_def)

lemma facility_rec_attrs:
  "cls facility_rec = Facility" "attrs facility_rec ''signed_by_id'' = PStr own_id"
  "attrs facility_rec ''counter'' = PInt 1" "obj_id facility_rec = PStr ''f1''"
  by (simp_all add: facility_rec_def no_attrs_def obj_id_def)

lemma save_facility_rec_rows:
  "rows (Model_save stub_lib facility_rec demo_world) = [own_dev, facility_rec]"
proof -
  have i: "(attrs facility_rec)(''id'' := PStr ''f1'') = attrs facility_rec"
    using facility_rec_attrs(4) by (simp add: fun_upd_idem obj_id_def)
  have c: "cls own_dev = Device" by (simp add: own_dev_def)
  show ?thesis
    by (simp add: Model_save_def demo_world_def same_row_def facility_rec_attrs c i)
qed

lemma signed_by_after_save:
  "signed_by stub_lib (Model_save stub_lib facility_rec demo_world) facility_rec = Some own_dev"
proof -
  have c: "cls own_dev = Device" by (simp add: own_dev_def)
  then show ?thesis
    by (simp add: signed_by_def get_object_or_None_def save_facility_rec_rows facility_rec_attrs truthy_own_dev)
qed

lemma save_facility_rec:
  "save stub_lib demo_world facility_rec OwnNone True
    = (Inr facility_rec, set_counter_position stub_lib (Model_save stub_lib facility_rec demo_world) own_dev 1)"
proof -
  note a = facility_rec_attrs
  note sb = signed_by_after_save
  show ?thesis
    by (simp add: save_def SyncedModel_save_def get_own_device_demo save_resolved_def a own_id_def
        verify_facility_rec record_counter_position_def sb [unfolded own_id_def a])
qed

text \<open>
  C1, as stated: every record saved locally after the bootstrap with an empty id gets the
  id \<^verbatim>\<open>uuid5(UUID(signed_by.id), str(counter)).hex\<close>. It fails for a Device record:
  \<^verbatim>\<open>self.get_uuid()\<close> is then \<^verbatim>\<open>Device.get_uuid\<close>, which hashes the public key in
  the root namespace.
\<close>

theorem local_save_id_counterexample:
  "\<not> isl (fst (save stub_lib demo_world peer_device OwnNone False))
   \<and> attrs (projr (fst (save stub_lib demo_world peer_device OwnNone False))) ''signed_by_id'' = PStr own_id
   \<and> uuid_UUID stub_lib own_id = Some 1
   \<and> obj_id (projr (fst (save stub_lib demo_world peer_device OwnNone False)))
       \<noteq> PStr (uuid_hex (uuid5 stub_lib 1 (py_str (float_str stub_lib)
            (attrs (projr (fst (save stub_lib demo_world peer_device OwnNone False))) ''counter''))))"
proof -
  have s: "str_int 1 = ''1''"
    by code_simp
  have "uuid_hex (uuid5 stub_lib (ROOT_UUID_NAMESPACE stub_lib) ''P'') \<noteq> uuid_hex (uuid5 stub_lib 1 ''1'')"
    using uuid_hex_inj stub_uuid5_differ by blast
  then show ?thesis
    using save_peer_device by (simp add: s UUID_own_id)
qed

text \<open>
  C1, amended: for every record of a class other than Device saved locally (default
  \<^verbatim>\<open>own_device\<close>) after the own-device bootstrap, the own device's id not empty, when
  the record's id starts empty and the save succeeds, the id assigned equals
  \<^verbatim>\<open>uuid5(UUID(signed_by.id), str(counter)).hex\<close>, where \<^verbatim>\<open>signed_by\<close> is the own
  device and \<^verbatim>\<open>counter\<close> is the counter assigned by that same save (the own device's
  counter position plus one); hence two such saves that agree on \<^verbatim>\<open>signed_by\<close> and
  \<^verbatim>\<open>counter\<close> assign the same id.
\<close>

theorem local_save_deterministic_id:
  assumes "filter is_own_device (metadata w) \<noteq> []"
    and "fst (get_own_device L w) = Inr (Some own)"
    and "truthy (obj_id own)"
    and "cls r \<noteq> Device"
    and "\<not> truthy (obj_id r)"
    and "save L w r OwnNone False = (Inr r', w')"
  shows "(\<exists>s ns. obj_id own = PStr s \<and> uuid_UUID L s = Some ns
          \<and> attrs r' ''signed_by_id'' = PStr s
          \<and> attrs r' ''counter'' = PInt (counter_position (get_metadata L w own) + 1)
          \<and> obj_id r' = PStr (uuid_hex (uuid5 L ns (py_str (float_str L) (attrs r' ''counter'')))))
       \<and> (\<forall>v own2 q q' v'.
             filter is_own_device (metadata v) \<noteq> [] \<and> fst (get_own_device L v) = Inr (Some own2)
             \<and> truthy (obj_id own2) \<and> cls q \<noteq> Device \<and> \<not> truthy (obj_id q)
             \<and> save L v q OwnNone False = (Inr q', v')
             \<and> attrs q' ''signed_by_id'' = attrs r' ''signed_by_id''
             \<and> attrs q' ''counter'' = attrs r' ''counter''
             \<longrightarrow> obj_id q' = obj_id r')"
proof (intro conjI allI impI)
  from local_save_id [OF assms]
  show "\<exists>s ns. obj_id own = PStr s \<and> uuid_UUID L s = Some ns
          \<and> attrs r' ''signed_by_id'' = PStr s
          \<and> attrs r' ''counter'' = PInt (counter_position (get_metadata L w own) + 1)
          \<and> obj_id r' = PStr (uuid_hex (uuid5 L ns (py_str (float_str L) (attrs r' ''counter''))))"
    by blast
next
  fix v own2 q q' v'
  assume h: "filter is_own_device (metadata v) \<noteq> [] \<and> fst (get_own_device L v) = Inr (Some own2)
             \<and> truthy (obj_id own2) \<and> cls q \<noteq> Device \<and> \<not> truthy (obj_id q)
             \<and> save L v q OwnNone False = (Inr q', v')
             \<and> attrs q' ''signed_by_id'' = attrs r' ''signed_by_id''
             \<and> attrs q' ''counter'' = attrs r' ''counter''"
  from local_save_id [OF assms] obtain s ns where
    a: "uuid_UUID L s = Some ns" "attrs r' ''signed_by_id'' = PStr s"
       "obj_id r' = PStr (uuid_hex (uuid5 L ns (py_str (float_str L) (attrs r' ''counter''))))"
    by blast
  from h have h1: "filter is_own_device (metadata v) \<noteq> []"
    and h2: "fst (get_own_device L v) = Inr (Some own2)"
    and h3: "truthy (obj_id own2)" and h4: "cls q \<noteq> Device" and h5: "\<not> truthy (obj_id q)"
    and h6: "save L v q OwnNone False = (Inr q', v')"
    by simp_all
  from local_save_id [OF h1 h2 h3 h4 h5 h6] obtain s2 ns2 where
    b: "uuid_UUID L s2 = Some ns2" "attrs q' ''signed_by_id'' = PStr s2"
       "obj_id q' = PStr (uuid_hex (uuid5 L ns2 (py_str (float_str L) (attrs q' ''counter''))))"
    by blast
  from a b h have "s2 = s" by simp
  with a b have "ns2 = ns" by simp
  with a b h show "obj_id q' = obj_id r'" by simp
qed

theorem local_save_deterministic_id_witness:
  "filter is_own_device (metadata demo_world) \<noteq> []
   \<and> fst (get_own_device stub_lib demo_world) = Inr (Some own_dev)
   \<and> truthy (obj_id own_dev) \<and> cls new_facility \<noteq> Device \<and> \<not> truthy (obj_id new_facility)
   \<and> \<not> isl (fst (save stub_lib demo_world new_facility OwnNone False))
   \<and> attrs (projr (fst (save stub_lib demo_world new_facility OwnNone False))) ''signed_by_id'' = PStr own_id
   \<and> attrs (projr (fst (save stub_lib demo_world new_facility OwnNone False))) ''counter'' = PInt 1
   \<and> obj_id (projr (fst (save stub_lib demo_world new_facility OwnNone False)))
       = PStr (uuid_hex (uuid5 stub_lib 1 ''1''))"
proof -
  let ?X = "save stub_lib demo_world new_facility OwnNone False"
  have h1: "filter is_own_device (metadata demo_world) \<noteq> []" by (simp add: demo_world_def)
  have h2: "fst (get_own_device stub_lib demo_world) = Inr (Some own_dev)" by (simp add: get_own_device_demo)
  have h4: "cls new_facility \<noteq> Device" by (simp add: new_facility_def)
  have h5: "\<not> truthy (obj_id new_facility)" by (simp add: new_facility_def obj_id_def no_attrs_def)
  have h6: "?X = (Inr (projr (fst ?X)), snd ?X)"
    using save_new_facility by (cases ?X) (auto simp: isl_def)
  from local_save_deterministic_id [OF h1 h2 truthy_own_dev(1) h4 h5 h6]
  have "\<exists>s ns. obj_id own_dev = PStr s \<and> uuid_UUID stub_lib s = Some ns
          \<and> attrs (projr (fst ?X)) ''signed_by_id'' = PStr s
          \<and> attrs (projr (fst ?X)) ''counter'' = PInt (counter_position (get_metadata stub_lib demo_world own_dev) + 1)
          \<and> obj_id (projr (fst ?X)) = PStr (uuid_hex (uuid5 stub_lib ns (py_str (float_str stub_lib) (attrs (projr (fst ?X)) ''counter''))))"
    by blast
  then have "attrs (projr (fst ?X)) ''signed_by_id'' = PStr own_id"
    by (auto simp: truthy_own_dev)
  with h1 h2 h4 h5 save_new_facility truthy_own_dev show ?thesis by simp
qed

lemma user_rec_attrs:
  "cls user_rec = FacilityUser" "attrs user_rec ''signed_by_id'' = PStr own_id"
  "attrs user_rec ''facility'' = PModel ''F1''"
  by (simp_all add: user_rec_def no_attrs_def)

lemma user_rec_facility_missing: "getattr_field demo_world user_rec ''facility'' = Inl DoesNotExist"
proof -
  have "cls own_dev \<noteq> Facility" by (simp add: own_dev_def)
  then show ?thesis
    by (simp add: getattr_field_def fk_target_def user_rec_attrs get_object_or_None_def demo_world_def)
qed

lemma user_rec_facility_hashed: "''facility'' \<in> set (hash_field_list (cls user_rec) None)"
  unfolding user_rec_attrs by code_simp

theorem SyncedModel_verify_cases_witness:
  "cls facility_rec \<noteq> Device \<and> truthy (attrs facility_rec ''signed_by_id'')
   \<and> signed_by stub_lib demo_world facility_rec = Some own_dev
   \<and> \<not> requires_trusted_signature (cls facility_rec)
   \<and> get_public_key stub_lib own_dev = Some ''K''
   \<and> hashable_representation_db stub_lib demo_world facility_rec
       = Inr ''counter=1&id=f1&name=School&signed_version=1''
   \<and> verify stub_lib demo_world facility_rec = Inr True
   \<and> \<not> truthy (attrs unsigned_rec ''signed_by_id'') \<and> cls unsigned_rec \<noteq> Device
   \<and> verify stub_lib demo_world unsigned_rec = Inr False
   \<and> cls user_rec \<noteq> Device \<and> truthy (attrs user_rec ''signed_by_id'')
   \<and> signed_by stub_lib demo_world user_rec = Some own_dev
   \<and> ''facility'' \<in> set (hash_field_list (cls user_rec) None)
   \<and> getattr_field demo_world user_rec ''facility'' = Inl DoesNotExist
   \<and> verify stub_lib demo_world user_rec = Inr False"
proof -
  have c: "cls facility_rec \<noteq> Device" "truthy (attrs facility_rec ''signed_by_id'')"
    "\<not> requires_trusted_signature (cls facility_rec)"
    by (simp_all add: facility_rec_def no_attrs_def own_id_def)
  have k: "get_public_key stub_lib own_dev = Some ''K''"
    by (simp add: get_public_key_def own_dev_def stub_lib_def no_attrs_def)
  have u: "\<not> truthy (attrs unsigned_rec ''signed_by_id'')" "cls unsigned_rec \<noteq> Device"
    by (simp_all add: unsigned_rec_def no_attrs_def)
  have v: "cls user_rec \<noteq> Device" "truthy (attrs user_rec ''signed_by_id'')"
    "\<not> requires_trusted_signature (cls user_rec)"
    by (simp_all add: user_rec_attrs own_id_def)
  have sb: "signed_by stub_lib demo_world user_rec = Some own_dev"
    by (simp add: signed_by_def get_object_or_None_def demo_world_def user_rec_attrs truthy_own_dev
        own_dev_def [THEN arg_cong, of cls])
  have vu: "verify stub_lib demo_world user_rec = Inr False"
    using SyncedModel_verify_cases [OF v(1), where L = stub_lib and w = demo_world and signer = own_dev
        and key = "''K''" and f = "''facility''" and e = DoesNotExist]
      v k sb user_rec_facility_hashed user_rec_facility_missing
    by simp
  show ?thesis
    using SyncedModel_verify_cases [OF c(1), where L = stub_lib and w = demo_world and signer = own_dev and key = "''K''"]
      SyncedModel_verify_cases [OF u(2), where L = stub_lib and w = demo_world]
      c k u v sb vu signed_by_facility_rec verify_facility_rec facility_rec_hash_db
      user_rec_facility_hashed user_rec_facility_missing
    by simp
qed

theorem imported_save_witness:
  "get_own_device stub_lib demo_world = (Inr (Some own_dev), demo_world)
   \<and> \<not> truthy (attrs unsigned_rec ''signed_by_id'')
   \<and> save stub_lib demo_world unsigned_rec OwnNone True
       = (Inl (ValidationError ''Imported models must be signed.''), demo_world)
   \<and> fst (save stub_lib demo_world facility_rec OwnNone True) = Inr facility_rec
   \<and> attrs facility_rec ''counter'' = PInt 1
   \<and> counter_position (get_metadata stub_lib (snd (save stub_lib demo_world facility_rec OwnNone True)) own_dev) = 1"
proof -
  have u: "\<not> truthy (attrs unsigned_rec ''signed_by_id'')"
    by (simp add: unsigned_rec_def no_attrs_def)
  have c: "attrs facility_rec ''counter'' = PInt 1" by (simp add: facility_rec_def no_attrs_def)
  have m: "rows (Model_save stub_lib facility_rec demo_world) = [own_dev, facility_rec]"
    using save_facility_rec_rows .
  have md: "metadata (Model_save stub_lib facility_rec demo_world) = metadata demo_world"
    by (simp add: Model_save_def Let_def)
  have cp: "counter_position (get_metadata stub_lib (Model_save stub_lib facility_rec demo_world) own_dev) = 0"
    using counter_demo_world by (simp add: get_metadata_def md)
  have sb: "signed_by stub_lib (Model_save stub_lib facility_rec demo_world) facility_rec = Some own_dev"
    using signed_by_after_save .
  from imported_save [OF get_own_device_demo, of unsigned_rec] u
  have a: "save stub_lib demo_world unsigned_rec OwnNone True
       = (Inl (ValidationError ''Imported models must be signed.''), demo_world)" by simp
  from imported_save [OF get_own_device_demo, of facility_rec facility_rec
      "set_counter_position stub_lib (Model_save stub_lib facility_rec demo_world) own_dev 1"]
    save_facility_rec sb c truthy_own_dev(1) cp
  have b: "counter_position (get_metadata stub_lib
      (set_counter_position stub_lib (Model_save stub_lib facility_rec demo_world) own_dev 1) own_dev) = 1"
    by simp
  show ?thesis using a b u c save_facility_rec get_own_device_demo by simp
qed

section \<open>Import and purgatory\<close>

lemma import_loop_failures:
  "import_loop L w ms u e c = (Inr (u', e', c'), w') \<Longrightarrow>
     u' = u @ map fst (validation_failures L w ms)
   \<and> e' = e @ concat (map (\<lambda>(m, msg). validation_error_str L msg @ [CHR 0x0A]) (validation_failures L w ms))
   \<and> c' + length (validation_failures L w ms) = c + length ms"
proof (induction ms arbitrary: w u e c)
  case Nil
  then show ?case by simp
next
  case (Cons m ms)
  obtain x w1 where s: "save L w m OwnNone True = (x, w1)" by (cases "save L w m OwnNone True")
  show ?case
  proof (cases x)
    case (Inr saved)
    with Cons.prems s have "import_loop L w1 ms u e (c + 1) = (Inr (u', e', c'), w')" by simp
    from Cons.IH [OF this] s Inr show ?thesis by simp
  next
    case (Inl err)
    show ?thesis
    proof (cases err)
      case (ValidationError msg)
      with Cons.prems s Inl
      have "import_loop L w1 ms (u @ [m]) (e @ validation_error_str L msg @ [CHR 0x0A]) c = (Inr (u', e', c'), w')"
        by simp
      from Cons.IH [OF this] s Inl ValidationError show ?thesis by simp
    qed (use Cons.prems s Inl in simp_all)
  qed
qed

lemma ImportPurgatory_save_row:
  "ImportPurgatory_save L w p = (Inr q, w') \<Longrightarrow>
     q \<in> set (purgatory w') \<and> serialized_models q = serialized_models p \<and> exceptions q = exceptions p
   \<and> retry_attempts q = retry_attempts p \<and> (\<forall>k. pk p = Some k \<longrightarrow> pk q = Some k)"
  unfolding ImportPurgatory_save_def Let_def
  by (auto split: if_splits prod.splits sum.splits option.splits)

lemma ImportPurgatory_delete_row:
  "ImportPurgatory_delete w p = (Inr u, w') \<Longrightarrow> \<forall>row \<in> set (purgatory w'). pk row \<noteq> pk p"
  by (auto simp: ImportPurgatory_delete_def split: option.splits)

text \<open>
  C9: when \<^verbatim>\<open>save_serialized_models(data)\<close> returns, the two counts add up to the number
  of deserialized records, the unsaved ones being those whose imported save raised a
  validation error. If there is one, a purgatory row exists (the retried row under its key,
  or a new one) whose \<^verbatim>\<open>serialized_models\<close> is the serialization of exactly these
  records, whose \<^verbatim>\<open>exceptions\<close> is the concatenation of their error lines, and whose
  \<^verbatim>\<open>retry_attempts\<close> is one more than before (0 for a new row). If there is none and
  the data was a purgatory row, no row with its key is left.
\<close>

theorem save_serialized_models_purgatory:
  assumes "save_serialized_models L w data = (Inr res, w')"
  shows "saved_model_count res + unsaved_model_count res = length (deserialized L data)
   \<and> unsaved_model_count res = length (validation_failures L w (deserialized L data))
   \<and> (validation_failures L w (deserialized L data) \<noteq> [] \<longrightarrow>
        (\<exists>row \<in> set (purgatory w').
           serialized_models row = json_serialize L (map fst (validation_failures L w (deserialized L data)))
         \<and> exceptions row = concat (map (\<lambda>(m, msg). validation_error_str L msg @ [CHR 0x0A])
                                (validation_failures L w (deserialized L data)))
         \<and> retry_attempts row = (case retried data of None \<Rightarrow> 0 | Some p \<Rightarrow> retry_attempts p) + 1
         \<and> (\<forall>p k. retried data = Some p \<and> pk p = Some k \<longrightarrow> pk row = Some k)))
   \<and> (validation_failures L w (deserialized L data) = [] \<longrightarrow>
        (\<forall>p. retried data = Some p \<longrightarrow> (\<forall>row \<in> set (purgatory w'). pk row \<noteq> pk p)))"
proof -
  let ?ms = "deserialized L data"
  let ?F = "validation_failures L w ?ms"
  obtain purg data' where pd: "(case data of PurgatoryData p \<Rightarrow> (Some p, TextData (serialized_models p))
                           | d \<Rightarrow> (None, d)) = (purg, data')" by fastforce
  have purg: "purg = retried data" using pd by (auto simp: retried_def split: sync_data.splits)
  obtain models raises where de: "(case data' of
                                PythonData ds \<Rightarrow> python_deserialize L ds
                              | TextData s \<Rightarrow> json_deserialize L s
                              | PurgatoryData p \<Rightarrow> ([], True)) = (models, raises)" by fastforce
  have models: "models = ?ms" using pd de by (auto simp: deserialized_def split: sync_data.splits)
  obtain x w1 where lp: "import_loop L w ?ms [] [] 0 = (x, w1)" by (cases "import_loop L w ?ms [] [] 0")
  from assms pd de lp models obtain u e c where x: "x = Inr (u, e, c)"
    by (cases x) (auto simp: save_serialized_models_def)
  from import_loop_failures [OF lp [unfolded x]]
  have u: "u = map fst ?F"
    and e: "e = concat (map (\<lambda>(m, msg). validation_error_str L msg @ [CHR 0x0A]) ?F)"
    and c: "c + length ?F = length ?ms" by simp_all
  from assms pd de lp models x have nr: "\<not> raises"
    by (auto simp: save_serialized_models_def split: if_splits)
  have res: "res = \<lparr>unsaved_model_count = length u, saved_model_count = c\<rparr>"
    using assms pd de lp models x nr
    by (auto simp: save_serialized_models_def Let_def split: if_splits prod.splits sum.splits option.splits)
  show ?thesis
  proof (intro conjI impI)
    show "saved_model_count res + unsaved_model_count res = length ?ms" using res u c by simp
    show "unsaved_model_count res = length ?F" using res u by simp
  next
    assume ne: "?F \<noteq> []"
    then have une: "u \<noteq> []" using u by simp
    let ?p = "case purg of None \<Rightarrow> new_ImportPurgatory | Some p \<Rightarrow> p"
    let ?p' = "?p\<lparr>serialized_models := json_serialize L u, exceptions := e, retry_attempts := retry_attempts ?p + 1\<rparr>"
    from assms pd de lp models x nr une obtain q where q: "ImportPurgatory_save L w1 ?p' = (Inr q, w')"
      by (auto simp: save_serialized_models_def Let_def split: prod.splits sum.splits)
    have r0: "retry_attempts ?p = (case retried data of None \<Rightarrow> 0 | Some p \<Rightarrow> retry_attempts p)"
      unfolding purg by (simp add: new_ImportPurgatory_def split: option.splits)
    have pk0: "\<forall>p k. retried data = Some p \<and> pk p = Some k \<longrightarrow> pk ?p' = Some k"
      unfolding purg by auto
    from ImportPurgatory_save_row [OF q] r0 pk0 u e
    show "\<exists>row \<in> set (purgatory w').
           serialized_models row = json_serialize L (map fst ?F)
         \<and> exceptions row = concat (map (\<lambda>(m, msg). validation_error_str L msg @ [CHR 0x0A]) ?F)
         \<and> retry_attempts row = (case retried data of None \<Rightarrow> 0 | Some p \<Rightarrow> retry_attempts p) + 1
         \<and> (\<forall>p k. retried data = Some p \<and> pk p = Some k \<longrightarrow> pk row = Some k)"
      by (intro bexI [of _ q]) auto
  next
    assume "?F = []"
    then have ue: "u = []" using u by simp
    show "\<forall>p. retried data = Some p \<longrightarrow> (\<forall>row \<in> set (purgatory w'). pk row \<noteq> pk p)"
    proof (intro allI impI)
      fix p assume "retried data = Some p"
      then have "purg = Some p" using purg by simp
      with assms pd de lp models x nr ue obtain un where "ImportPurgatory_delete w1 p = (Inr un, w')"
        by (auto simp: save_serialized_models_def Let_def split: prod.splits sum.splits)
      from ImportPurgatory_delete_row [OF this] show "\<forall>row \<in> set (purgatory w'). pk row \<noteq> pk p" .
    qed
  qed
qed

lemma deserialized_demo_batch:
  "deserialized stub_lib demo_batch = [stub_object demo_entry]"
  by (simp add: deserialized_def demo_batch_def stub_lib_def)

lemma stub_object_demo_entry:
  "cls (stub_object demo_entry) = Facility" "attrs (stub_object demo_entry) ''signed_by_id'' = PNone"
  by (simp_all add: stub_object_def demo_entry_def)

lemma save_demo_batch_record:
  "save stub_lib demo_world (stub_object demo_entry) OwnNone True
     = (Inl (ValidationError ''Imported models must be signed.''), demo_world)"
  by (simp add: save_def SyncedModel_save_def get_own_device_demo save_resolved_def stub_object_demo_entry)

lemma validation_error_str_stub: "validation_error_str stub_lib msg = msg"
  by (simp add: stub_lib_def)

lemma get_counter_demo: "get_counter stub_lib demo_world own_dev = 0"
  by (simp add: get_counter_def counter_demo_world truthy_own_dev)

lemma save_serialized_demo_batch:
  "save_serialized_models stub_lib demo_world demo_batch =
     (Inr \<lparr>unsaved_model_count = 1, saved_model_count = 0\<rparr>,
      demo_world\<lparr>purgatory := [\<lparr>pk = Some 1, p_counter = PInt 0, retry_attempts = 1,
          serialized_models = json_serialize stub_lib (deserialized stub_lib demo_batch),
          exceptions = ''Imported models must be signed.'' @ [CHR 0x0A]\<rparr>],
        next_pk := 2\<rparr>)"
proof -
  have pd: "(case demo_batch of
               PurgatoryData p \<Rightarrow> (Some p, TextData (serialized_models p))
             | d \<Rightarrow> (None, d)) = (None, demo_batch)"
    by (simp add: demo_batch_def)
  have d: "(case demo_batch of
              PythonData ds \<Rightarrow> python_deserialize stub_lib ds
            | TextData s \<Rightarrow> json_deserialize stub_lib s
            | PurgatoryData p \<Rightarrow> ([], True)) = (deserialized stub_lib demo_batch, False)"
    by (simp add: deserialized_def demo_batch_def stub_lib_def)
  have l: "import_loop stub_lib demo_world (deserialized stub_lib demo_batch) [] [] 0
     = (Inr (deserialized stub_lib demo_batch, ''Imported models must be signed.'' @ [CHR 0x0A], 0), demo_world)"
    by (simp add: deserialized_demo_batch save_demo_batch_record validation_error_str_stub)
  have n: "deserialized stub_lib demo_batch \<noteq> []" "length (deserialized stub_lib demo_batch) = 1"
    by (simp_all add: deserialized_demo_batch)
  have w: "purgatory demo_world = []" "next_pk demo_world = 1" by (simp_all add: demo_world_def)
  show ?thesis
    unfolding save_serialized_models_def
    by (simp add: pd d l n new_ImportPurgatory_def ImportPurgatory_save_def
        get_own_device_demo get_counter_demo w Let_def)
qed

lemma save_serialized_retry:
  "save_serialized_models stub_lib purgatory_world (PurgatoryData retry_row) =
     (Inr \<lparr>unsaved_model_count = 0, saved_model_count = 0\<rparr>, purgatory_world\<lparr>purgatory := []\<rparr>)"
proof -
  have d: "json_deserialize stub_lib s = ([], False)" for s by (simp add: stub_lib_def)
  show ?thesis
    unfolding save_serialized_models_def
    by (simp add: d ImportPurgatory_delete_def retry_row_def purgatory_world_def)
qed

theorem save_serialized_models_purgatory_witness:
  "fst (save_serialized_models stub_lib demo_world demo_batch)
     = Inr \<lparr>unsaved_model_count = 1, saved_model_count = 0\<rparr>
   \<and> length (deserialized stub_lib demo_batch) = 1
   \<and> length (validation_failures stub_lib demo_world (deserialized stub_lib demo_batch)) = 1
   \<and> map retry_attempts (purgatory (snd (save_serialized_models stub_lib demo_world demo_batch))) = [1]
   \<and> fst (save_serialized_models stub_lib purgatory_world (PurgatoryData retry_row))
       = Inr \<lparr>unsaved_model_count = 0, saved_model_count = 0\<rparr>
   \<and> retried (PurgatoryData retry_row) = Some retry_row
   \<and> purgatory (snd (save_serialized_models stub_lib purgatory_world (PurgatoryData retry_row))) = []"
  using save_serialized_models_purgatory [OF save_serialized_demo_batch]
    save_serialized_models_purgatory [OF save_serialized_retry]
  by (simp add: save_serialized_demo_batch save_serialized_retry retried_def deserialized_demo_batch)

section \<open>Rounds of the batch selector\<close>

lemma rec_D_simps:
  "cls (rec_D i) = Facility" "attrs (rec_D i) ''signed_by_id'' = PStr ''D''"
  "counter_of (rec_D i) = Some (int i)" "attrs (rec_D i) ''counter'' = PInt (int i)"
  by (simp_all add: rec_D_def no_attrs_def counter_of_def)

lemma dev_D_simps:
  "cls dev_D = Device" "obj_id dev_D = PStr ''D''" "attrs dev_D ''signed_by_id'' = PStr ''D''"
  by (simp_all add: dev_D_def no_attrs_def obj_id_def)

lemma dz_D_simps:
  "cls dz_D = DeviceZone" "attrs dz_D ''device'' = PModel ''D''" "attrs dz_D ''zone'' = PModel ''Z''"
  "attrs dz_D ''signed_by_id'' = PNone"
  by (simp_all add: dz_D_def no_attrs_def)

lemma zone_row_simps:
  "cls zone_row = Zone" "obj_id zone_row = PStr ''Z''" "attrs zone_row ''signed_by_id'' = PNone"
  by (simp_all add: zone_row_def no_attrs_def obj_id_def)

lemma filter_upt_range:
  "filter (\<lambda>i. a \<le> i \<and> i < b) [m..<n] = [max a m..<min b n]"
proof (induction n)
  case 0 show ?case by simp
next
  case (Suc n)
  show ?case
  proof (cases "m \<le> n")
    case False then show ?thesis by simp
  next
    case True
    then have "[m..<Suc n] = [m..<n] @ [n]" by simp
    then show ?thesis using Suc True
      by (auto simp: min_def max_def not_less not_le less_Suc_eq_le le_Suc_eq)
  qed
qed

lemma filter_upt_window:
  "filter (\<lambda>i. int a \<le> int i \<and> int i < int a + int l + 0) [m..<n] = [max a m..<min (a + l) n]"
  using filter_upt_range [of a "a + l" m n] by (simp add: of_nat_add [symmetric] del: of_nat_add)

lemma get_Device_D:
  "rows w = [dev_D, zone_row, dz_D] @ map rec_D xs \<Longrightarrow> get_object_or_None Device (PStr ''D'') w = Some dev_D"
  by (simp add: get_object_or_None_def dev_D_simps)

lemma get_Zone_Z:
  "rows w = [dev_D, zone_row, dz_D] @ map rec_D xs \<Longrightarrow> get_object_or_None Zone (PStr ''Z'') w = Some zone_row"
  by (simp add: get_object_or_None_def dev_D_simps zone_row_simps)

lemma filter_map_rec_D_cls:
  "c \<noteq> Facility \<Longrightarrow> filter (\<lambda>x. cls x = c \<and> P x) (map rec_D xs) = []"
  by (simp add: filter_empty_conv rec_D_simps)

lemma devicezone_set_D:
  "rows w = [dev_D, zone_row, dz_D] @ map rec_D xs \<Longrightarrow> devicezone_set L w dev_D = [dz_D]"
  by (simp add: devicezone_set_def dev_D_simps dz_D_simps zone_row_simps filter_map_rec_D_cls)

lemma getattr_zone_dz_D:
  "rows w = [dev_D, zone_row, dz_D] @ map rec_D xs \<Longrightarrow> getattr_field w dz_D ''zone'' = Inr (PModel ''Z'')"
  by (simp add: getattr_field_def fk_target_def dz_D_simps get_Zone_Z)

lemma Device_get_zone_D:
  "rows w = [dev_D, zone_row, dz_D] @ map rec_D xs \<Longrightarrow> Device_get_zone L w dev_D = Inr (PModel ''Z'')"
  by (simp add: Device_get_zone_def devicezone_set_D getattr_zone_dz_D)

lemma Device_in_zone_D:
  "rows w = [dev_D, zone_row, dz_D] @ map rec_D xs \<Longrightarrow> Device_in_zone L w dev_D zone_Z = Inr True"
  by (simp add: Device_in_zone_def Device_get_zone_D zone_Z_def)

lemma keep_devices_D:
  "rows w = [dev_D, zone_row, dz_D] @ map rec_D xs \<Longrightarrow>
     keep_devices L w zone_Z [(PStr ''D'', k)] = Inr [(PStr ''D'', k)]"
  by (simp add: get_Device_D Device_in_zone_D)

lemma queryset_D:
  assumes "rows w = [dev_D, zone_row, dz_D] @ map rec_D xs" "M \<noteq> Device"
  shows "filter (\<lambda>x. cls x = M \<and> attrs x ''signed_by_id'' = obj_id dev_D) (rows w)
       = (if M = Facility then map rec_D xs else [])"
proof (cases "M = Facility")
  case True
  have "filter (\<lambda>x. cls x = Facility \<and> attrs x ''signed_by_id'' = PStr ''D'') (map rec_D xs) = map rec_D xs"
    by (simp add: rec_D_simps)
  then show ?thesis using assms True by (simp add: dev_D_simps dz_D_simps zone_row_simps)
next
  case False
  then show ?thesis using assms by (simp add: dev_D_simps dz_D_simps zone_row_simps filter_map_rec_D_cls)
qed

lemma filter_counter_rec_D:
  "filter (\<lambda>x. case counter_of x of Some n \<Rightarrow> P n | None \<Rightarrow> False) (map rec_D xs)
     = map rec_D (filter (\<lambda>i. P (int i)) xs)"
  by (induction xs) (simp_all add: rec_D_simps)

lemma scan_devices_D:
  assumes "rows w = [dev_D, zone_row, dz_D] @ map rec_D xs" "M \<noteq> Device"
  shows "scan_devices L w zone_Z limit boost M [(PStr ''D'', k)] (models, remaining)
     = Inr (models @ (if M = Facility
                      then map rec_D (filter (\<lambda>i. k \<le> int i \<and> int i < k + limit + boost) xs) else []),
            remaining \<or> (M = Facility \<and> filter (\<lambda>i. k + limit + boost \<le> int i) xs \<noteq> []))"
proof -
  note g = get_Device_D [OF assms(1)]
  note z = Device_in_zone_D [OF assms(1), of L]
  note q = queryset_D [OF assms]
  show ?thesis
    by (simp add: g z q filter_counter_rec_D Let_def)
qed

lemma scan_models_D:
  assumes "rows w = [dev_D, zone_row, dz_D] @ map rec_D xs"
  shows "scan_models L w zone_Z limit boost [Facility, FacilityGroup, FacilityUser, SyncedLog]
          [(PStr ''D'', k)] ([], False)
     = Inr (map rec_D (filter (\<lambda>i. k \<le> int i \<and> int i < k + limit + boost) xs),
            filter (\<lambda>i. k + limit + boost \<le> int i) xs \<noteq> [])"
  by (simp add: scan_devices_D [OF assms] del: scan_devices.simps)

lemma select_models_D:
  assumes "rows w = [dev_D, zone_row, dz_D] @ map rec_D xs"
    and "syncing_models L = [Facility, FacilityGroup, FacilityUser, SyncedLog]"
    and "filter (\<lambda>i. k \<le> int i \<and> int i < k + limit + 0) xs \<noteq> []"
  shows "select_models L w (Some [(PStr ''D'', k)]) limit zone_Z
     = (Some (Inr (map rec_D (filter (\<lambda>i. k \<le> int i \<and> int i < k + limit + 0) xs), 0)), w)"
proof -
  have z: "truthy zone_Z" by (simp add: zone_Z_def)
  have l: "select_loop L w zone_Z limit [(PStr ''D'', k)] [] 0
     = Some (Inr (map rec_D (filter (\<lambda>i. k \<le> int i \<and> int i < k + limit + 0) xs), 0))"
    using assms(3)
    by (subst select_loop.simps)
       (simp add: assms(2) scan_models_D [OF assms(1)] del: scan_models.simps scan_devices.simps)
  show ?thesis
    by (simp add: select_models_def z keep_devices_D [OF assms(1)] l del: keep_devices.simps)
qed

lemma signed_by_dev_D:
  "rows cw = [dev_D, zone_row, dz_D] \<Longrightarrow> attrs r ''signed_by_id'' = PStr ''D'' \<Longrightarrow> signed_by L cw r = Some dev_D"
  by (simp add: signed_by_def get_object_or_None_def dev_D_simps)

lemma Device_by_zone_client:
  assumes "rows cw = [dev_D, zone_row, dz_D]"
  shows "Device_by_zone L cw zone_Z = [dev_D]"
proof -
  have r: "rows cw = [dev_D, zone_row, dz_D] @ map rec_D []" using assms by simp
  show ?thesis
    by (simp add: Device_by_zone_def assms signed_by_dev_D [OF assms] dev_D_simps dz_D_simps
        zone_row_simps zone_Z_def devicezone_set_D [OF r])
qed

lemma get_device_counters_client:
  "rows cw = [dev_D, zone_row, dz_D] \<Longrightarrow>
     get_device_counters L cw zone_Z = [(PStr ''D'', counter_position (get_metadata L cw dev_D))]"
  by (simp add: get_device_counters_def Device_by_zone_client dev_D_simps)

lemma rows_set_counter_position: "rows (set_counter_position L w d n) = rows w"
  by (simp add: set_counter_position_def Let_def rows_metadata_save)

lemma client_import_D:
  "rows cw = [dev_D, zone_row, dz_D] \<Longrightarrow>
     rows (client_import L cw (map rec_D xs)) = [dev_D, zone_row, dz_D]
   \<and> counter_position (get_metadata L (client_import L cw (map rec_D xs)) dev_D)
       = fold (\<lambda>i m. max m (int i)) xs (counter_position (get_metadata L cw dev_D))"
proof (induction xs arbitrary: cw)
  case Nil
  then show ?case by (simp add: client_import_def)
next
  case (Cons i xs)
  let ?cw = "set_counter_position L cw dev_D (int i)"
  have s: "snd (record_counter_position L cw (rec_D i)) = ?cw"
    by (simp add: record_counter_position_def signed_by_dev_D [OF Cons.prems] rec_D_simps)
  have r: "rows ?cw = [dev_D, zone_row, dz_D]" using Cons.prems by (simp add: rows_set_counter_position)
  have t: "truthy (obj_id dev_D)" by (simp add: dev_D_simps)
  have c: "counter_position (get_metadata L ?cw dev_D) = max (counter_position (get_metadata L cw dev_D)) (int i)"
    by (simp add: set_counter_position_value t)
  have "client_import L cw (map rec_D (i # xs)) = client_import L ?cw (map rec_D xs)"
    by (simp add: client_import_def s)
  with Cons.IH [OF r] c show ?case by simp
qed

lemma fold_max_upt:
  "fold (\<lambda>i m. max m (int i)) [a..<b] m0 = (if a < b then max m0 (int (b - 1)) else m0)"
proof (induction b)
  case 0 show ?case by simp
next
  case (Suc b)
  show ?case
  proof (cases "a \<le> b")
    case True
    then show ?thesis using Suc by (auto simp: max_def)
  next
    case False then show ?thesis by simp
  qed
qed

lemma sync_round_D:
  assumes "rows cw = [dev_D, zone_row, dz_D]"
    and "counter_position (get_metadata stub_lib cw dev_D) = int a"
    and "max a 1 < min (a + 100) 251"
  shows "\<exists>cw'. sync_round stub_lib server_world cw zone_Z 100
           = Some (map rec_D [max a 1..<min (a + 100) 251], 0, cw')
       \<and> rows cw' = [dev_D, zone_row, dz_D]
       \<and> counter_position (get_metadata stub_lib cw' dev_D) = int (min (a + 100) 251 - 1)"
proof -
  have sw: "rows server_world = [dev_D, zone_row, dz_D] @ map rec_D [1..<251]" by (simp add: server_world_def)
  have sm: "syncing_models stub_lib = [Facility, FacilityGroup, FacilityUser, SyncedLog]"
    by (simp add: stub_lib_def)
  have f: "filter (\<lambda>i. int a \<le> int i \<and> int i < int a + 100 + 0) [1..<251] = [max a 1..<min (a + 100) 251]"
    using filter_upt_window [of a 100 1 251] by simp
  have ne: "filter (\<lambda>i. int a \<le> int i \<and> int i < int a + 100 + 0) [1..<251] \<noteq> []"
    unfolding f using assms(3) by simp
  have sel: "select_models stub_lib server_world (Some [(PStr ''D'', int a)]) 100 zone_Z
     = (Some (Inr (map rec_D [max a 1..<min (a + 100) 251], 0)), server_world)"
    using select_models_D [OF sw sm ne] unfolding f .
  let ?cw' = "client_import stub_lib cw (map rec_D [max a 1..<min (a + 100) 251])"
  have r: "sync_round stub_lib server_world cw zone_Z 100
           = Some (map rec_D [max a 1..<min (a + 100) 251], 0, ?cw')"
    by (simp add: sync_round_def get_device_counters_client [OF assms(1)] assms(2) sel)
  from client_import_D [OF assms(1), of stub_lib "[max a 1..<min (a + 100) 251]"]
  have rw: "rows ?cw' = [dev_D, zone_row, dz_D]"
    and cp: "counter_position (get_metadata stub_lib ?cw' dev_D)
       = fold (\<lambda>i m. max m (int i)) [max a 1..<min (a + 100) 251] (int a)"
    unfolding assms(2) by blast+
  have "fold (\<lambda>i m. max m (int i)) [max a 1..<min (a + 100) 251] (int a)
       = max (int a) (int (min (a + 100) 251 - 1))"
    using assms(3) by (simp only: fold_max_upt if_True)
  also have "\<dots> = int (min (a + 100) 251 - 1)"
  proof -
    have "a \<le> min (a + 100) 251 - 1" using assms(3) by arith
    then show ?thesis by simp
  qed
  finally have "counter_position (get_metadata stub_lib ?cw' dev_D) = int (min (a + 100) 251 - 1)"
    using cp by simp
  with r rw show ?thesis by blast
qed


lemma client_world_start:
  "rows client_world = [dev_D, zone_row, dz_D]"
  "counter_position (get_metadata stub_lib client_world dev_D) = int 0"
  by (simp_all add: client_world_def get_metadata_def new_metadata_def)

lemma three_rounds:
  "\<exists>cw3. sync_rounds stub_lib server_world client_world zone_Z 100 3
      = Some ([(map rec_D [1..<100], 0), (map rec_D [99..<199], 0), (map rec_D [198..<251], 0)], cw3)
    \<and> rows cw3 = [dev_D, zone_row, dz_D]
    \<and> counter_position (get_metadata stub_lib cw3 dev_D) = 250"
proof -
  from sync_round_D [OF client_world_start] obtain cw1 where
    r1: "sync_round stub_lib server_world client_world zone_Z 100 = Some (map rec_D [1..<100], 0, cw1)"
    and w1: "rows cw1 = [dev_D, zone_row, dz_D]"
    and c1: "counter_position (get_metadata stub_lib cw1 dev_D) = int 99"
    by auto
  from sync_round_D [OF w1 c1] obtain cw2 where
    r2: "sync_round stub_lib server_world cw1 zone_Z 100 = Some (map rec_D [99..<199], 0, cw2)"
    and w2: "rows cw2 = [dev_D, zone_row, dz_D]"
    and c2: "counter_position (get_metadata stub_lib cw2 dev_D) = int 198"
    by auto
  from sync_round_D [OF w2 c2] obtain cw3 where
    r3: "sync_round stub_lib server_world cw2 zone_Z 100 = Some (map rec_D [198..<251], 0, cw3)"
    and w3: "rows cw3 = [dev_D, zone_row, dz_D]"
    and c3: "counter_position (get_metadata stub_lib cw3 dev_D) = int 250"
    by auto
  have "sync_rounds stub_lib server_world client_world zone_Z 100 (Suc (Suc (Suc 0)))
      = Some ([(map rec_D [1..<100], 0), (map rec_D [99..<199], 0), (map rec_D [198..<251], 0)], cw3)"
    by (simp add: r1 r2 r3)
  with w3 c3 show ?thesis by (auto simp: numeral_3_eq_3)
qed

lemma rec_D_inj: "rec_D i = rec_D j \<Longrightarrow> i = j"
proof -
  assume "rec_D i = rec_D j"
  then have "attrs (rec_D i) ''counter'' = attrs (rec_D j) ''counter''" by simp
  then show "i = j" by (simp add: rec_D_simps)
qed

text \<open>
  C5, as stated: over the three rounds every record is retrieved exactly once, with no
  duplicates. It fails: the selector's window starts at the client's known counter, which is
  the counter of a record the client already holds, so the records with counters 99 and 198
  come again in the next round.
\<close>

theorem batch_rounds_duplicates_counterexample:
  "\<not> distinct (concat (map fst (fst (the
       (sync_rounds stub_lib server_world client_world zone_Z 100 3)))))"
proof -
  from three_rounds obtain cw3 where
    "sync_rounds stub_lib server_world client_world zone_Z 100 3
      = Some ([(map rec_D [1..<100], 0), (map rec_D [99..<199], 0), (map rec_D [198..<251], 0)], cw3)"
    by blast
  moreover have "rec_D 99 \<in> set (map rec_D [1..<100])" "rec_D 99 \<in> set (map rec_D [99..<199])"
    by simp_all
  ultimately show ?thesis by auto
qed

text \<open>
  C5, amended: given a single device D with 250 records bearing counters 1 through 250,
  starting peer knowledge {D: 0} and limit 100, a client that after each round takes as its
  known counter the highest counter received retrieves all 250 records in three rounds,
  each record at least once, and each round returns at most 100+boost records. The rounds
  return the records with counters 1 to 99, 99 to 198 and 198 to 250 (99, 100 and 53
  records, with boost 0), and after the third round the client's known counter is 250.
\<close>

theorem batch_rounds:
  "\<exists>cw3. sync_rounds stub_lib server_world client_world zone_Z 100 3
      = Some ([(map rec_D [1..<100], 0), (map rec_D [99..<199], 0), (map rec_D [198..<251], 0)], cw3)
    \<and> get_device_counters stub_lib cw3 zone_Z = [(PStr ''D'', 250)]
    \<and> set (map rec_D [1..<100] @ map rec_D [99..<199] @ map rec_D [198..<251])
        = set (map rec_D [1..<251])
    \<and> int (length (map rec_D [1..<100])) \<le> 100 + 0
    \<and> int (length (map rec_D [99..<199])) \<le> 100 + 0
    \<and> int (length (map rec_D [198..<251])) \<le> 100 + 0
    \<and> distinct (map rec_D [1..<251])"
proof -
  from three_rounds obtain cw3 where
    r: "sync_rounds stub_lib server_world client_world zone_Z 100 3
      = Some ([(map rec_D [1..<100], 0), (map rec_D [99..<199], 0), (map rec_D [198..<251], 0)], cw3)"
    and w: "rows cw3 = [dev_D, zone_row, dz_D]"
    and c: "counter_position (get_metadata stub_lib cw3 dev_D) = 250"
    by blast
  have k: "get_device_counters stub_lib cw3 zone_Z = [(PStr ''D'', 250)]"
    using get_device_counters_client [OF w, of stub_lib] c by simp
  have "{1..<100} \<union> {99..<199} \<union> {198..<251} = {1..<251::nat}" by auto
  then have "rec_D ` ({1..<100} \<union> {99..<199} \<union> {198..<251}) = rec_D ` {1..<251}"
    by (simp only:)
  then have s: "set (map rec_D [1..<100] @ map rec_D [99..<199] @ map rec_D [198..<251])
        = set (map rec_D [1..<251])"
    by (simp only: set_append set_map set_upt image_Un Un_assoc)
  have d: "distinct (map rec_D [1..<251])"
    by (simp add: distinct_map inj_on_def rec_D_inj)
  have l: "int (length (map rec_D [1..<100])) \<le> 100 + 0"
    "int (length (map rec_D [99..<199])) \<le> 100 + 0"
    "int (length (map rec_D [198..<251])) \<le> 100 + 0"
    by (simp_all only: length_map length_upt)
  from r k s l d show ?thesis by blast
qed

end
